theory Spec2Isabelle
  imports Main "HOL-Library.Word"
begin

section \<open>Data model\<close>

text \<open>
  Go's \<open>int64\<close> (and \<open>time.Duration\<close>, and the nanosecond timestamps of
  \<open>time.Now().UnixNano()\<close>) is a 64-bit word read as two's complement: \<open>+\<close> and
  \<open>-\<close> wrap, comparisons are the signed ones (\<open><s\<close>, \<open>\<le>s\<close>).  Go's \<open>int\<close>,
  \<open>uint\<close> and \<open>uintptr\<close> are modelled at their 64-bit width (amd64, arm64).
\<close>

type_synonym int64 = "64 word"
type_synonym key = string

text \<open>
  The stored value is an \<open>interface{}\<close>.  The dynamic types that the arithmetic of
  \<open>cache.go\<close> inspects each get a constructor; every other dynamic type (strings,
  structs, pointers) is \<open>VOther\<close>, and the nil interface is \<open>Nil\<close>.  The two
  floating-point types are type parameters \<open>'f\<close> (float32) and \<open>'d\<close> (float64).
\<close>

datatype ('f, 'd) obj =
    Nil
  | VInt "64 word"
  | VInt8 "8 word"
  | VInt16 "16 word"
  | VInt32 "32 word"
  | VInt64 "64 word"
  | VUint "64 word"
  | VUintptr "64 word"
  | VUint8 "8 word"
  | VUint16 "16 word"
  | VUint32 "32 word"
  | VUint64 "64 word"
  | VFloat32 'f
  | VFloat64 'd
  | VOther string

text \<open>
  The floating-point operations used by the arithmetic: addition and subtraction in each
  format, the conversions \<open>float32(n)\<close> and \<open>float64(n)\<close> of an \<open>int64\<close>, and the
  narrowing \<open>float32(n)\<close> of a \<open>float64\<close>.
\<close>

record ('f, 'd) float_ops =
  add32 :: "'f \<Rightarrow> 'f \<Rightarrow> 'f"
  sub32 :: "'f \<Rightarrow> 'f \<Rightarrow> 'f"
  add64 :: "'d \<Rightarrow> 'd \<Rightarrow> 'd"
  sub64 :: "'d \<Rightarrow> 'd \<Rightarrow> 'd"
  float32_of_int64 :: "int64 \<Rightarrow> 'f"
  float64_of_int64 :: "int64 \<Rightarrow> 'd"
  float32_of_float64 :: "'d \<Rightarrow> 'f"

text \<open>\<open>type Item struct { Object interface{}; Expiration int64; RefreshDeadline int64 }\<close>\<close>

record ('f, 'd) Item =
  Object :: "('f, 'd) obj"
  Expiration :: int64
  RefreshDeadline :: int64

text \<open>
  \<open>Item.Expired\<close> and \<open>Item.RefreshDeadlineReached\<close>.  The reading of the clock,
  \<open>time.Now().UnixNano()\<close>, is the argument \<open>now\<close> here and in every operation
  below; an operation that reads the clock more than once gets the one reading.
\<close>

definition Item_Expired :: "('f, 'd) Item \<Rightarrow> int64 \<Rightarrow> bool" where
  "Item_Expired item now =
     (if Expiration item = 0 then False else Expiration item <s now)"

definition Item_RefreshDeadlineReached :: "('f, 'd) Item \<Rightarrow> int64 \<Rightarrow> bool" where
  "Item_RefreshDeadlineReached item now =
     (if RefreshDeadline item = 0 then False else RefreshDeadline item <s now)"

definition NoExpiration :: int64 where
  "NoExpiration = - 1"

definition NoRefreshDeadline :: int64 where
  "NoRefreshDeadline = - 1"

definition DefaultExpiration :: int64 where
  "DefaultExpiration = 0"

section \<open>The in-memory storage\<close>

text \<open>
  \<open>memoryStorage\<close> holds \<open>items map[string]Item\<close>.  Its mutex is not modelled: every
  operation below is one critical section of the source and runs as one step.  The other
  implementation of \<open>Storage\<close>, \<open>redisStorage\<close>, keeps its items on a server and hands
  them to serialisation libraries; it has no counterpart here, and the cache below is the
  cache over the in-memory storage.
\<close>

record ('f, 'd) memoryStorage =
  items :: "key \<rightharpoonup> ('f, 'd) Item"

definition memoryStorage_Get ::
  "key \<Rightarrow> ('f, 'd) memoryStorage \<Rightarrow> ('f, 'd) Item option" where
  "memoryStorage_Get k s = items s k"

definition memoryStorage_Set ::
  "key \<Rightarrow> ('f, 'd) Item \<Rightarrow> ('f, 'd) memoryStorage \<Rightarrow> ('f, 'd) memoryStorage" where
  "memoryStorage_Set k item s = s\<lparr>items := (items s)(k \<mapsto> item)\<rparr>"

definition memoryStorage_Del ::
  "key \<Rightarrow> ('f, 'd) memoryStorage \<Rightarrow> ('f, 'd) memoryStorage" where
  "memoryStorage_Del k s = s\<lparr>items := (items s)(k := None)\<rparr>"

definition memoryStorage_Flush :: "('f, 'd) memoryStorage \<Rightarrow> ('f, 'd) memoryStorage" where
  "memoryStorage_Flush s = s\<lparr>items := Map.empty\<rparr>"

definition MemoryStorage :: "('f, 'd) memoryStorage" where
  "MemoryStorage = \<lparr>items = Map.empty\<rparr>"

text \<open>
  \<open>DeleteExpired\<close> ranges over the map and deletes while it ranges.  Go fixes no order
  for the range, so the order \<open>ks\<close> in which the keys come up is an argument; a key
  deleted before its turn is skipped, as in Go.
\<close>

fun DeleteExpired_range ::
  "int64 \<Rightarrow> key list \<Rightarrow> ('f, 'd) memoryStorage \<Rightarrow> ('f, 'd) memoryStorage" where
  "DeleteExpired_range now [] s = s"
| "DeleteExpired_range now (k # ks) s =
     (case items s k of
        None \<Rightarrow> DeleteExpired_range now ks s
      | Some v \<Rightarrow>
          if 0 <s Expiration v \<and> Expiration v <s now
          then DeleteExpired_range now ks (memoryStorage_Del k s)
          else DeleteExpired_range now ks s)"

definition memoryStorage_DeleteExpired ::
  "int64 \<Rightarrow> key list \<Rightarrow> ('f, 'd) memoryStorage \<Rightarrow> ('f, 'd) memoryStorage" where
  "memoryStorage_DeleteExpired now ks s = DeleteExpired_range now ks s"

section \<open>The cache engine\<close>

text \<open>
  The errors of \<open>cache.go\<close> are built with \<open>fmt.Errorf\<close>; each format string is a
  constructor, and \<open>Error\<close> renders the message.
\<close>

datatype error =
    ItemNotFound key
  | ItemNotFoundUnnamed
  | ItemAlreadyExists key
  | ItemDoesntExist key
  | NotAnInteger key
  | NotAFloat key
  | NotA key string

fun Error :: "error \<Rightarrow> string" where
  "Error (ItemNotFound k) = ''Item '' @ k @ '' not found''"
| "Error ItemNotFoundUnnamed = ''Item not found''"
| "Error (ItemAlreadyExists k) = ''Item '' @ k @ '' already exists''"
| "Error (ItemDoesntExist k) = ''Item '' @ k @ '' doesn'' @ [CHR 0x27] @ ''t exist''"
| "Error (NotAnInteger k) = ''The value for '' @ k @ '' is not an integer''"
| "Error (NotAFloat k) =
     ''The value for '' @ k @ '' does not have type float32 or float64''"
| "Error (NotA k ty) = ''The value for '' @ k @ '' is not an '' @ ty"

text \<open>
  The \<open>cache\<close> struct over the in-memory storage.  \<open>refreshKeys\<close> is the content of
  the buffered channel (capacity 100).  Two fields stand for goroutines: \<open>senders\<close>
  lists the keys of the goroutines \<open>go func() { c.refreshKeys <- k }()\<close> that were
  started and have not yet delivered their key, \<open>workers\<close> counts the goroutines
  started by \<open>newCache\<close>.  The callback \<open>onRefreshNeeded\<close> is an argument of the
  worker's step.
\<close>

record ('f, 'd) cache =
  defaultExpiration :: int64
  storage :: "('f, 'd) memoryStorage"
  refreshConcurrencyMap :: "key \<rightharpoonup> bool"
  refreshKeys :: "key list"
  senders :: "key list"
  workers :: nat

text \<open>
  \<open>Set\<close> and \<open>set\<close> have the same body, but for the lock.  The timestamp
  \<open>time.Now().Add(d).UnixNano()\<close> is \<open>now + d\<close> in \<open>int64\<close>: \<open>Add\<close> keeps seconds and
  nanoseconds apart and does not overflow for any duration, and \<open>UnixNano\<close> multiplies
  and adds in \<open>int64\<close>, where Go wraps.
\<close>

definition cache_Set ::
  "key \<Rightarrow> ('f, 'd) obj \<Rightarrow> int64 \<Rightarrow> int64 \<Rightarrow> int64 \<Rightarrow> ('f, 'd) cache \<Rightarrow> ('f, 'd) cache" where
  "cache_Set k x d rd now c =
     (let d = (if d = DefaultExpiration then defaultExpiration c else d);
          e = (if 0 <s d then now + d else 0);
          erd = (if 0 <s rd then now + rd else 0);
          item = \<lparr>Object = x, Expiration = e, RefreshDeadline = erd\<rparr>
      in c\<lparr>storage := memoryStorage_Set k item (storage c)\<rparr>)"

definition cache_set ::
  "key \<Rightarrow> ('f, 'd) obj \<Rightarrow> int64 \<Rightarrow> int64 \<Rightarrow> int64 \<Rightarrow> ('f, 'd) cache \<Rightarrow> ('f, 'd) cache" where
  "cache_set k x d rd now c =
     (let d = (if d = DefaultExpiration then defaultExpiration c else d);
          e = (if 0 <s d then now + d else 0);
          erd = (if 0 <s rd then now + rd else 0);
          item = \<lparr>Object = x, Expiration = e, RefreshDeadline = erd\<rparr>
      in c\<lparr>storage := memoryStorage_Set k item (storage c)\<rparr>)"

text \<open>
  \<open>Get\<close> returns \<open>(nil, false)\<close> or \<open>(item.Object, true)\<close>.  When the refresh
  deadline is reached and the key is not in \<open>refreshConcurrencyMap\<close>, it enters the key
  there and starts a goroutine that sends the key.
\<close>

definition cache_Get ::
  "key \<Rightarrow> int64 \<Rightarrow> ('f, 'd) cache \<Rightarrow> (('f, 'd) obj \<times> bool) \<times> ('f, 'd) cache" where
  "cache_Get k now c =
     (case memoryStorage_Get k (storage c) of
        None \<Rightarrow> ((Nil, False), c)
      | Some item \<Rightarrow>
          if 0 <s Expiration item \<and> Expiration item <s now then ((Nil, False), c)
          else if 0 <s RefreshDeadline item \<and> Item_RefreshDeadlineReached item now
          then (case refreshConcurrencyMap c k of
                  None \<Rightarrow>
                    let c1 = c\<lparr>refreshConcurrencyMap := (refreshConcurrencyMap c)(k \<mapsto> True)\<rparr>;
                        c2 = c1\<lparr>senders := senders c1 @ [k]\<rparr>
                    in ((Object item, True), c2)
                | Some _ \<Rightarrow> ((Object item, True), c))
          else ((Object item, True), c))"

text \<open>
  The unexported \<open>get\<close>, called by \<open>Add\<close> and \<open>Replace\<close>: after starting the
  sending goroutine it deletes the key from \<open>refreshConcurrencyMap\<close> again.
\<close>

definition cache_get ::
  "key \<Rightarrow> int64 \<Rightarrow> ('f, 'd) cache \<Rightarrow> (('f, 'd) obj \<times> bool) \<times> ('f, 'd) cache" where
  "cache_get k now c =
     (case memoryStorage_Get k (storage c) of
        None \<Rightarrow> ((Nil, False), c)
      | Some item \<Rightarrow>
          if 0 <s Expiration item \<and> Expiration item <s now then ((Nil, False), c)
          else if 0 <s RefreshDeadline item \<and> Item_RefreshDeadlineReached item now
          then (case refreshConcurrencyMap c k of
                  None \<Rightarrow>
                    let c1 = c\<lparr>refreshConcurrencyMap := (refreshConcurrencyMap c)(k \<mapsto> True)\<rparr>;
                        c2 = c1\<lparr>senders := senders c1 @ [k]\<rparr>;
                        c3 = c2\<lparr>refreshConcurrencyMap := (refreshConcurrencyMap c2)(k := None)\<rparr>
                    in ((Object item, True), c3)
                | Some _ \<Rightarrow> ((Object item, True), c))
          else ((Object item, True), c))"

definition cache_Add ::
  "key \<Rightarrow> ('f, 'd) obj \<Rightarrow> int64 \<Rightarrow> int64 \<Rightarrow> int64 \<Rightarrow> ('f, 'd) cache
     \<Rightarrow> error option \<times> ('f, 'd) cache" where
  "cache_Add k x d rd now c =
     (case cache_get k now c of
        ((_, found), c1) \<Rightarrow>
          if found then (Some (ItemAlreadyExists k), c1)
          else (None, cache_set k x d rd now c1))"

definition cache_Replace ::
  "key \<Rightarrow> ('f, 'd) obj \<Rightarrow> int64 \<Rightarrow> int64 \<Rightarrow> int64 \<Rightarrow> ('f, 'd) cache
     \<Rightarrow> error option \<times> ('f, 'd) cache" where
  "cache_Replace k x d rd now c =
     (case cache_get k now c of
        ((_, found), c1) \<Rightarrow>
          if \<not> found then (Some (ItemDoesntExist k), c1)
          else (None, cache_set k x d rd now c1))"

text \<open>
  One turn of the loop of \<open>refreshWorker\<close>: receive a key, run the callback, delete the
  key from \<open>refreshConcurrencyMap\<close>.  \<open>None\<close> when the channel is empty (the worker
  waits).  \<open>send_step\<close> is the delivery of the first waiting sender; it waits while the
  channel is full.
\<close>

definition refreshWorker_step ::
  "(key \<Rightarrow> ('f, 'd) cache \<Rightarrow> ('f, 'd) cache) \<Rightarrow> ('f, 'd) cache \<Rightarrow> ('f, 'd) cache option" where
  "refreshWorker_step onRefreshNeeded c =
     (case refreshKeys c of
        [] \<Rightarrow> None
      | k # ks \<Rightarrow>
          let c1 = onRefreshNeeded k (c\<lparr>refreshKeys := ks\<rparr>)
          in Some (c1\<lparr>refreshConcurrencyMap := (refreshConcurrencyMap c1)(k := None)\<rparr>))"

definition send_step :: "('f, 'd) cache \<Rightarrow> ('f, 'd) cache option" where
  "send_step c =
     (case senders c of
        [] \<Rightarrow> None
      | k # ks \<Rightarrow>
          if length (refreshKeys c) < 100
          then Some (c\<lparr>senders := ks, refreshKeys := refreshKeys c @ [k]\<rparr>)
          else None)"

definition cache_Delete :: "key \<Rightarrow> ('f, 'd) cache \<Rightarrow> ('f, 'd) cache" where
  "cache_Delete k c = c\<lparr>storage := memoryStorage_Del k (storage c)\<rparr>"

definition cache_Flush :: "('f, 'd) cache \<Rightarrow> ('f, 'd) cache" where
  "cache_Flush c = c\<lparr>storage := memoryStorage_Flush (storage c)\<rparr>"

text \<open>
  \<open>newCache\<close>: a default expiration of 0 becomes \<open>-1\<close>; the loop
  \<open>for i := 1; i <= refreshWorkerCount; i++\<close> starts no worker for a count below 1.
\<close>

definition newCache :: "int64 \<Rightarrow> ('f, 'd) memoryStorage \<Rightarrow> int64 \<Rightarrow> ('f, 'd) cache" where
  "newCache de s refreshWorkerCount =
     (let de = (if de = 0 then - 1 else de)
      in \<lparr>defaultExpiration = de,
          storage = s,
          refreshConcurrencyMap = Map.empty,
          refreshKeys = [],
          senders = [],
          workers = (if 0 <s refreshWorkerCount then unat refreshWorkerCount else 0)\<rparr>)"

section \<open>Arithmetic on stored values\<close>

text \<open>
  \<open>Increment\<close> and \<open>Decrement\<close> take an \<open>int64\<close> and convert it to the stored
  value's type (\<open>int8(n)\<close> keeps the low 8 bits, and so on); the sum is the stored
  type's own, so it wraps.  \<open>F\<close> gives the floating-point operations.
\<close>

definition cache_Increment ::
  "('f, 'd) float_ops \<Rightarrow> key \<Rightarrow> int64 \<Rightarrow> int64 \<Rightarrow> ('f, 'd) cache
     \<Rightarrow> error option \<times> ('f, 'd) cache" where
  "cache_Increment F k n now c =
     (case memoryStorage_Get k (storage c) of
        None \<Rightarrow> (Some (ItemNotFound k), c)
      | Some v \<Rightarrow>
          if Item_Expired v now then (Some (ItemNotFound k), c)
          else
            (case
               (case Object v of
                  VInt x \<Rightarrow> Some (VInt (x + ucast n))
                | VInt8 x \<Rightarrow> Some (VInt8 (x + ucast n))
                | VInt16 x \<Rightarrow> Some (VInt16 (x + ucast n))
                | VInt32 x \<Rightarrow> Some (VInt32 (x + ucast n))
                | VInt64 x \<Rightarrow> Some (VInt64 (x + n))
                | VUint x \<Rightarrow> Some (VUint (x + ucast n))
                | VUintptr x \<Rightarrow> Some (VUintptr (x + ucast n))
                | VUint8 x \<Rightarrow> Some (VUint8 (x + ucast n))
                | VUint16 x \<Rightarrow> Some (VUint16 (x + ucast n))
                | VUint32 x \<Rightarrow> Some (VUint32 (x + ucast n))
                | VUint64 x \<Rightarrow> Some (VUint64 (x + ucast n))
                | VFloat32 x \<Rightarrow> Some (VFloat32 (add32 F x (float32_of_int64 F n)))
                | VFloat64 x \<Rightarrow> Some (VFloat64 (add64 F x (float64_of_int64 F n)))
                | _ \<Rightarrow> None)
             of
               None \<Rightarrow> (Some (NotAnInteger k), c)
             | Some ob \<Rightarrow>
                 (None, c\<lparr>storage := memoryStorage_Set k (v\<lparr>Object := ob\<rparr>) (storage c)\<rparr>)))"

definition cache_IncrementFloat ::
  "('f, 'd) float_ops \<Rightarrow> key \<Rightarrow> 'd \<Rightarrow> int64 \<Rightarrow> ('f, 'd) cache
     \<Rightarrow> error option \<times> ('f, 'd) cache" where
  "cache_IncrementFloat F k n now c =
     (case memoryStorage_Get k (storage c) of
        None \<Rightarrow> (Some (ItemNotFound k), c)
      | Some v \<Rightarrow>
          if Item_Expired v now then (Some (ItemNotFound k), c)
          else
            (case
               (case Object v of
                  VFloat32 x \<Rightarrow> Some (VFloat32 (add32 F x (float32_of_float64 F n)))
                | VFloat64 x \<Rightarrow> Some (VFloat64 (add64 F x n))
                | _ \<Rightarrow> None)
             of
               None \<Rightarrow> (Some (NotAFloat k), c)
             | Some ob \<Rightarrow>
                 (None, c\<lparr>storage := memoryStorage_Set k (v\<lparr>Object := ob\<rparr>) (storage c)\<rparr>)))"

definition cache_Decrement ::
  "('f, 'd) float_ops \<Rightarrow> key \<Rightarrow> int64 \<Rightarrow> int64 \<Rightarrow> ('f, 'd) cache
     \<Rightarrow> error option \<times> ('f, 'd) cache" where
  "cache_Decrement F k n now c =
     (case memoryStorage_Get k (storage c) of
        None \<Rightarrow> (Some ItemNotFoundUnnamed, c)
      | Some v \<Rightarrow>
          if Item_Expired v now then (Some ItemNotFoundUnnamed, c)
          else
            (case
               (case Object v of
                  VInt x \<Rightarrow> Some (VInt (x - ucast n))
                | VInt8 x \<Rightarrow> Some (VInt8 (x - ucast n))
                | VInt16 x \<Rightarrow> Some (VInt16 (x - ucast n))
                | VInt32 x \<Rightarrow> Some (VInt32 (x - ucast n))
                | VInt64 x \<Rightarrow> Some (VInt64 (x - n))
                | VUint x \<Rightarrow> Some (VUint (x - ucast n))
                | VUintptr x \<Rightarrow> Some (VUintptr (x - ucast n))
                | VUint8 x \<Rightarrow> Some (VUint8 (x - ucast n))
                | VUint16 x \<Rightarrow> Some (VUint16 (x - ucast n))
                | VUint32 x \<Rightarrow> Some (VUint32 (x - ucast n))
                | VUint64 x \<Rightarrow> Some (VUint64 (x - ucast n))
                | VFloat32 x \<Rightarrow> Some (VFloat32 (sub32 F x (float32_of_int64 F n)))
                | VFloat64 x \<Rightarrow> Some (VFloat64 (sub64 F x (float64_of_int64 F n)))
                | _ \<Rightarrow> None)
             of
               None \<Rightarrow> (Some (NotAnInteger k), c)
             | Some ob \<Rightarrow>
                 (None, c\<lparr>storage := memoryStorage_Set k (v\<lparr>Object := ob\<rparr>) (storage c)\<rparr>)))"

definition cache_DecrementFloat ::
  "('f, 'd) float_ops \<Rightarrow> key \<Rightarrow> 'd \<Rightarrow> int64 \<Rightarrow> ('f, 'd) cache
     \<Rightarrow> error option \<times> ('f, 'd) cache" where
  "cache_DecrementFloat F k n now c =
     (case memoryStorage_Get k (storage c) of
        None \<Rightarrow> (Some (ItemNotFound k), c)
      | Some v \<Rightarrow>
          if Item_Expired v now then (Some (ItemNotFound k), c)
          else
            (case
               (case Object v of
                  VFloat32 x \<Rightarrow> Some (VFloat32 (sub32 F x (float32_of_float64 F n)))
                | VFloat64 x \<Rightarrow> Some (VFloat64 (sub64 F x n))
                | _ \<Rightarrow> None)
             of
               None \<Rightarrow> (Some (NotAFloat k), c)
             | Some ob \<Rightarrow>
                 (None, c\<lparr>storage := memoryStorage_Set k (v\<lparr>Object := ob\<rparr>) (storage c)\<rparr>)))"

text \<open>
  The typed variants assert the stored value's dynamic type (\<open>rv, ok := v.Object.(int8)\<close>)
  and return the new value.
\<close>

definition cache_IncrementInt ::
  "key \<Rightarrow> 64 word \<Rightarrow> int64 \<Rightarrow> ('f, 'd) cache
     \<Rightarrow> (error + 64 word) \<times> ('f, 'd) cache" where
  "cache_IncrementInt k n now c =
     (case memoryStorage_Get k (storage c) of
        None \<Rightarrow> (Inl (ItemNotFound k), c)
      | Some v \<Rightarrow>
          if Item_Expired v now then (Inl (ItemNotFound k), c)
          else
            (case Object v of
               VInt rv \<Rightarrow>
                 let nv = rv + n
                 in (Inr nv,
                     c\<lparr>storage := memoryStorage_Set k (v\<lparr>Object := VInt nv\<rparr>) (storage c)\<rparr>)
             | _ \<Rightarrow> (Inl (NotA k ''int''), c)))"

definition cache_IncrementInt8 ::
  "key \<Rightarrow> 8 word \<Rightarrow> int64 \<Rightarrow> ('f, 'd) cache
     \<Rightarrow> (error + 8 word) \<times> ('f, 'd) cache" where
  "cache_IncrementInt8 k n now c =
     (case memoryStorage_Get k (storage c) of
        None \<Rightarrow> (Inl (ItemNotFound k), c)
      | Some v \<Rightarrow>
          if Item_Expired v now then (Inl (ItemNotFound k), c)
          else
            (case Object v of
               VInt8 rv \<Rightarrow>
                 let nv = rv + n
                 in (Inr nv,
                     c\<lparr>storage := memoryStorage_Set k (v\<lparr>Object := VInt8 nv\<rparr>) (storage c)\<rparr>)
             | _ \<Rightarrow> (Inl (NotA k ''int8''), c)))"

definition cache_IncrementInt16 ::
  "key \<Rightarrow> 16 word \<Rightarrow> int64 \<Rightarrow> ('f, 'd) cache
     \<Rightarrow> (error + 16 word) \<times> ('f, 'd) cache" where
  "cache_IncrementInt16 k n now c =
     (case memoryStorage_Get k (storage c) of
        None \<Rightarrow> (Inl (ItemNotFound k), c)
      | Some v \<Rightarrow>
          if Item_Expired v now then (Inl (ItemNotFound k), c)
          else
            (case Object v of
               VInt16 rv \<Rightarrow>
                 let nv = rv + n
                 in (Inr nv,
                     c\<lparr>storage := memoryStorage_Set k (v\<lparr>Object := VInt16 nv\<rparr>) (storage c)\<rparr>)
             | _ \<Rightarrow> (Inl (NotA k ''int16''), c)))"

definition cache_IncrementInt32 ::
  "key \<Rightarrow> 32 word \<Rightarrow> int64 \<Rightarrow> ('f, 'd) cache
     \<Rightarrow> (error + 32 word) \<times> ('f, 'd) cache" where
  "cache_IncrementInt32 k n now c =
     (case memoryStorage_Get k (storage c) of
        None \<Rightarrow> (Inl (ItemNotFound k), c)
      | Some v \<Rightarrow>
          if Item_Expired v now then (Inl (ItemNotFound k), c)
          else
            (case Object v of
               VInt32 rv \<Rightarrow>
                 let nv = rv + n
                 in (Inr nv,
                     c\<lparr>storage := memoryStorage_Set k (v\<lparr>Object := VInt32 nv\<rparr>) (storage c)\<rparr>)
             | _ \<Rightarrow> (Inl (NotA k ''int32''), c)))"

definition cache_IncrementInt64 ::
  "key \<Rightarrow> 64 word \<Rightarrow> int64 \<Rightarrow> ('f, 'd) cache
     \<Rightarrow> (error + 64 word) \<times> ('f, 'd) cache" where
  "cache_IncrementInt64 k n now c =
     (case memoryStorage_Get k (storage c) of
        None \<Rightarrow> (Inl (ItemNotFound k), c)
      | Some v \<Rightarrow>
          if Item_Expired v now then (Inl (ItemNotFound k), c)
          else
            (case Object v of
               VInt64 rv \<Rightarrow>
                 let nv = rv + n
                 in (Inr nv,
                     c\<lparr>storage := memoryStorage_Set k (v\<lparr>Object := VInt64 nv\<rparr>) (storage c)\<rparr>)
             | _ \<Rightarrow> (Inl (NotA k ''int64''), c)))"

definition cache_IncrementUint ::
  "key \<Rightarrow> 64 word \<Rightarrow> int64 \<Rightarrow> ('f, 'd) cache
     \<Rightarrow> (error + 64 word) \<times> ('f, 'd) cache" where
  "cache_IncrementUint k n now c =
     (case memoryStorage_Get k (storage c) of
        None \<Rightarrow> (Inl (ItemNotFound k), c)
      | Some v \<Rightarrow>
          if Item_Expired v now then (Inl (ItemNotFound k), c)
          else
            (case Object v of
               VUint rv \<Rightarrow>
                 let nv = rv + n
                 in (Inr nv,
                     c\<lparr>storage := memoryStorage_Set k (v\<lparr>Object := VUint nv\<rparr>) (storage c)\<rparr>)
             | _ \<Rightarrow> (Inl (NotA k ''uint''), c)))"

definition cache_IncrementUintptr ::
  "key \<Rightarrow> 64 word \<Rightarrow> int64 \<Rightarrow> ('f, 'd) cache
     \<Rightarrow> (error + 64 word) \<times> ('f, 'd) cache" where
  "cache_IncrementUintptr k n now c =
     (case memoryStorage_Get k (storage c) of
        None \<Rightarrow> (Inl (ItemNotFound k), c)
      | Some v \<Rightarrow>
          if Item_Expired v now then (Inl (ItemNotFound k), c)
          else
            (case Object v of
               VUintptr rv \<Rightarrow>
                 let nv = rv + n
                 in (Inr nv,
                     c\<lparr>storage := memoryStorage_Set k (v\<lparr>Object := VUintptr nv\<rparr>) (storage c)\<rparr>)
             | _ \<Rightarrow> (Inl (NotA k ''uintptr''), c)))"

definition cache_IncrementUint8 ::
  "key \<Rightarrow> 8 word \<Rightarrow> int64 \<Rightarrow> ('f, 'd) cache
     \<Rightarrow> (error + 8 word) \<times> ('f, 'd) cache" where
  "cache_IncrementUint8 k n now c =
     (case memoryStorage_Get k (storage c) of
        None \<Rightarrow> (Inl (ItemNotFound k), c)
      | Some v \<Rightarrow>
          if Item_Expired v now then (Inl (ItemNotFound k), c)
          else
            (case Object v of
               VUint8 rv \<Rightarrow>
                 let nv = rv + n
                 in (Inr nv,
                     c\<lparr>storage := memoryStorage_Set k (v\<lparr>Object := VUint8 nv\<rparr>) (storage c)\<rparr>)
             | _ \<Rightarrow> (Inl (NotA k ''uint8''), c)))"

definition cache_IncrementUint16 ::
  "key \<Rightarrow> 16 word \<Rightarrow> int64 \<Rightarrow> ('f, 'd) cache
     \<Rightarrow> (error + 16 word) \<times> ('f, 'd) cache" where
  "cache_IncrementUint16 k n now c =
     (case memoryStorage_Get k (storage c) of
        None \<Rightarrow> (Inl (ItemNotFound k), c)
      | Some v \<Rightarrow>
          if Item_Expired v now then (Inl (ItemNotFound k), c)
          else
            (case Object v of
               VUint16 rv \<Rightarrow>
                 let nv = rv + n
                 in (Inr nv,
                     c\<lparr>storage := memoryStorage_Set k (v\<lparr>Object := VUint16 nv\<rparr>) (storage c)\<rparr>)
             | _ \<Rightarrow> (Inl (NotA k ''uint16''), c)))"

definition cache_IncrementUint32 ::
  "key \<Rightarrow> 32 word \<Rightarrow> int64 \<Rightarrow> ('f, 'd) cache
     \<Rightarrow> (error + 32 word) \<times> ('f, 'd) cache" where
  "cache_IncrementUint32 k n now c =
     (case memoryStorage_Get k (storage c) of
        None \<Rightarrow> (Inl (ItemNotFound k), c)
      | Some v \<Rightarrow>
          if Item_Expired v now then (Inl (ItemNotFound k), c)
          else
            (case Object v of
               VUint32 rv \<Rightarrow>
                 let nv = rv + n
                 in (Inr nv,
                     c\<lparr>storage := memoryStorage_Set k (v\<lparr>Object := VUint32 nv\<rparr>) (storage c)\<rparr>)
             | _ \<Rightarrow> (Inl (NotA k ''uint32''), c)))"

definition cache_IncrementUint64 ::
  "key \<Rightarrow> 64 word \<Rightarrow> int64 \<Rightarrow> ('f, 'd) cache
     \<Rightarrow> (error + 64 word) \<times> ('f, 'd) cache" where
  "cache_IncrementUint64 k n now c =
     (case memoryStorage_Get k (storage c) of
        None \<Rightarrow> (Inl (ItemNotFound k), c)
      | Some v \<Rightarrow>
          if Item_Expired v now then (Inl (ItemNotFound k), c)
          else
            (case Object v of
               VUint64 rv \<Rightarrow>
                 let nv = rv + n
                 in (Inr nv,
                     c\<lparr>storage := memoryStorage_Set k (v\<lparr>Object := VUint64 nv\<rparr>) (storage c)\<rparr>)
             | _ \<Rightarrow> (Inl (NotA k ''uint64''), c)))"

definition cache_IncrementFloat32 ::
  "('f, 'd) float_ops \<Rightarrow> key \<Rightarrow> 'f \<Rightarrow> int64 \<Rightarrow> ('f, 'd) cache
     \<Rightarrow> (error + 'f) \<times> ('f, 'd) cache" where
  "cache_IncrementFloat32 F k n now c =
     (case memoryStorage_Get k (storage c) of
        None \<Rightarrow> (Inl (ItemNotFound k), c)
      | Some v \<Rightarrow>
          if Item_Expired v now then (Inl (ItemNotFound k), c)
          else
            (case Object v of
               VFloat32 rv \<Rightarrow>
                 let nv = add32 F rv n
                 in (Inr nv,
                     c\<lparr>storage := memoryStorage_Set k (v\<lparr>Object := VFloat32 nv\<rparr>) (storage c)\<rparr>)
             | _ \<Rightarrow> (Inl (NotA k ''float32''), c)))"

definition cache_IncrementFloat64 ::
  "('f, 'd) float_ops \<Rightarrow> key \<Rightarrow> 'd \<Rightarrow> int64 \<Rightarrow> ('f, 'd) cache
     \<Rightarrow> (error + 'd) \<times> ('f, 'd) cache" where
  "cache_IncrementFloat64 F k n now c =
     (case memoryStorage_Get k (storage c) of
        None \<Rightarrow> (Inl (ItemNotFound k), c)
      | Some v \<Rightarrow>
          if Item_Expired v now then (Inl (ItemNotFound k), c)
          else
            (case Object v of
               VFloat64 rv \<Rightarrow>
                 let nv = add64 F rv n
                 in (Inr nv,
                     c\<lparr>storage := memoryStorage_Set k (v\<lparr>Object := VFloat64 nv\<rparr>) (storage c)\<rparr>)
             | _ \<Rightarrow> (Inl (NotA k ''float64''), c)))"

definition cache_DecrementInt ::
  "key \<Rightarrow> 64 word \<Rightarrow> int64 \<Rightarrow> ('f, 'd) cache
     \<Rightarrow> (error + 64 word) \<times> ('f, 'd) cache" where
  "cache_DecrementInt k n now c =
     (case memoryStorage_Get k (storage c) of
        None \<Rightarrow> (Inl (ItemNotFound k), c)
      | Some v \<Rightarrow>
          if Item_Expired v now then (Inl (ItemNotFound k), c)
          else
            (case Object v of
               VInt rv \<Rightarrow>
                 let nv = rv - n
                 in (Inr nv,
                     c\<lparr>storage := memoryStorage_Set k (v\<lparr>Object := VInt nv\<rparr>) (storage c)\<rparr>)
             | _ \<Rightarrow> (Inl (NotA k ''int''), c)))"

definition cache_DecrementInt8 ::
  "key \<Rightarrow> 8 word \<Rightarrow> int64 \<Rightarrow> ('f, 'd) cache
     \<Rightarrow> (error + 8 word) \<times> ('f, 'd) cache" where
  "cache_DecrementInt8 k n now c =
     (case memoryStorage_Get k (storage c) of
        None \<Rightarrow> (Inl (ItemNotFound k), c)
      | Some v \<Rightarrow>
          if Item_Expired v now then (Inl (ItemNotFound k), c)
          else
            (case Object v of
               VInt8 rv \<Rightarrow>
                 let nv = rv - n
                 in (Inr nv,
                     c\<lparr>storage := memoryStorage_Set k (v\<lparr>Object := VInt8 nv\<rparr>) (storage c)\<rparr>)
             | _ \<Rightarrow> (Inl (NotA k ''int8''), c)))"

definition cache_DecrementInt16 ::
  "key \<Rightarrow> 16 word \<Rightarrow> int64 \<Rightarrow> ('f, 'd) cache
     \<Rightarrow> (error + 16 word) \<times> ('f, 'd) cache" where
  "cache_DecrementInt16 k n now c =
     (case memoryStorage_Get k (storage c) of
        None \<Rightarrow> (Inl (ItemNotFound k), c)
      | Some v \<Rightarrow>
          if Item_Expired v now then (Inl (ItemNotFound k), c)
          else
            (case Object v of
               VInt16 rv \<Rightarrow>
                 let nv = rv - n
                 in (Inr nv,
                     c\<lparr>storage := memoryStorage_Set k (v\<lparr>Object := VInt16 nv\<rparr>) (storage c)\<rparr>)
             | _ \<Rightarrow> (Inl (NotA k ''int16''), c)))"

definition cache_DecrementInt32 ::
  "key \<Rightarrow> 32 word \<Rightarrow> int64 \<Rightarrow> ('f, 'd) cache
     \<Rightarrow> (error + 32 word) \<times> ('f, 'd) cache" where
  "cache_DecrementInt32 k n now c =
     (case memoryStorage_Get k (storage c) of
        None \<Rightarrow> (Inl (ItemNotFound k), c)
      | Some v \<Rightarrow>
          if Item_Expired v now then (Inl (ItemNotFound k), c)
          else
            (case Object v of
               VInt32 rv \<Rightarrow>
                 let nv = rv - n
                 in (Inr nv,
                     c\<lparr>storage := memoryStorage_Set k (v\<lparr>Object := VInt32 nv\<rparr>) (storage c)\<rparr>)
             | _ \<Rightarrow> (Inl (NotA k ''int32''), c)))"

definition cache_DecrementInt64 ::
  "key \<Rightarrow> 64 word \<Rightarrow> int64 \<Rightarrow> ('f, 'd) cache
     \<Rightarrow> (error + 64 word) \<times> ('f, 'd) cache" where
  "cache_DecrementInt64 k n now c =
     (case memoryStorage_Get k (storage c) of
        None \<Rightarrow> (Inl (ItemNotFound k), c)
      | Some v \<Rightarrow>
          if Item_Expired v now then (Inl (ItemNotFound k), c)
          else
            (case Object v of
               VInt64 rv \<Rightarrow>
                 let nv = rv - n
                 in (Inr nv,
                     c\<lparr>storage := memoryStorage_Set k (v\<lparr>Object := VInt64 nv\<rparr>) (storage c)\<rparr>)
             | _ \<Rightarrow> (Inl (NotA k ''int64''), c)))"

definition cache_DecrementUint ::
  "key \<Rightarrow> 64 word \<Rightarrow> int64 \<Rightarrow> ('f, 'd) cache
     \<Rightarrow> (error + 64 word) \<times> ('f, 'd) cache" where
  "cache_DecrementUint k n now c =
     (case memoryStorage_Get k (storage c) of
        None \<Rightarrow> (Inl (ItemNotFound k), c)
      | Some v \<Rightarrow>
          if Item_Expired v now then (Inl (ItemNotFound k), c)
          else
            (case Object v of
               VUint rv \<Rightarrow>
                 let nv = rv - n
                 in (Inr nv,
                     c\<lparr>storage := memoryStorage_Set k (v\<lparr>Object := VUint nv\<rparr>) (storage c)\<rparr>)
             | _ \<Rightarrow> (Inl (NotA k ''uint''), c)))"

definition cache_DecrementUintptr ::
  "key \<Rightarrow> 64 word \<Rightarrow> int64 \<Rightarrow> ('f, 'd) cache
     \<Rightarrow> (error + 64 word) \<times> ('f, 'd) cache" where
  "cache_DecrementUintptr k n now c =
     (case memoryStorage_Get k (storage c) of
        None \<Rightarrow> (Inl (ItemNotFound k), c)
      | Some v \<Rightarrow>
          if Item_Expired v now then (Inl (ItemNotFound k), c)
          else
            (case Object v of
               VUintptr rv \<Rightarrow>
                 let nv = rv - n
                 in (Inr nv,
                     c\<lparr>storage := memoryStorage_Set k (v\<lparr>Object := VUintptr nv\<rparr>) (storage c)\<rparr>)
             | _ \<Rightarrow> (Inl (NotA k ''uintptr''), c)))"

definition cache_DecrementUint8 ::
  "key \<Rightarrow> 8 word \<Rightarrow> int64 \<Rightarrow> ('f, 'd) cache
     \<Rightarrow> (error + 8 word) \<times> ('f, 'd) cache" where
  "cache_DecrementUint8 k n now c =
     (case memoryStorage_Get k (storage c) of
        None \<Rightarrow> (Inl (ItemNotFound k), c)
      | Some v \<Rightarrow>
          if Item_Expired v now then (Inl (ItemNotFound k), c)
          else
            (case Object v of
               VUint8 rv \<Rightarrow>
                 let nv = rv - n
                 in (Inr nv,
                     c\<lparr>storage := memoryStorage_Set k (v\<lparr>Object := VUint8 nv\<rparr>) (storage c)\<rparr>)
             | _ \<Rightarrow> (Inl (NotA k ''uint8''), c)))"

definition cache_DecrementUint16 ::
  "key \<Rightarrow> 16 word \<Rightarrow> int64 \<Rightarrow> ('f, 'd) cache
     \<Rightarrow> (error + 16 word) \<times> ('f, 'd) cache" where
  "cache_DecrementUint16 k n now c =
     (case memoryStorage_Get k (storage c) of
        None \<Rightarrow> (Inl (ItemNotFound k), c)
      | Some v \<Rightarrow>
          if Item_Expired v now then (Inl (ItemNotFound k), c)
          else
            (case Object v of
               VUint16 rv \<Rightarrow>
                 let nv = rv - n
                 in (Inr nv,
                     c\<lparr>storage := memoryStorage_Set k (v\<lparr>Object := VUint16 nv\<rparr>) (storage c)\<rparr>)
             | _ \<Rightarrow> (Inl (NotA k ''uint16''), c)))"

definition cache_DecrementUint32 ::
  "key \<Rightarrow> 32 word \<Rightarrow> int64 \<Rightarrow> ('f, 'd) cache
     \<Rightarrow> (error + 32 word) \<times> ('f, 'd) cache" where
  "cache_DecrementUint32 k n now c =
     (case memoryStorage_Get k (storage c) of
        None \<Rightarrow> (Inl (ItemNotFound k), c)
      | Some v \<Rightarrow>
          if Item_Expired v now then (Inl (ItemNotFound k), c)
          else
            (case Object v of
               VUint32 rv \<Rightarrow>
                 let nv = rv - n
                 in (Inr nv,
                     c\<lparr>storage := memoryStorage_Set k (v\<lparr>Object := VUint32 nv\<rparr>) (storage c)\<rparr>)
             | _ \<Rightarrow> (Inl (NotA k ''uint32''), c)))"

definition cache_DecrementUint64 ::
  "key \<Rightarrow> 64 word \<Rightarrow> int64 \<Rightarrow> ('f, 'd) cache
     \<Rightarrow> (error + 64 word) \<times> ('f, 'd) cache" where
  "cache_DecrementUint64 k n now c =
     (case memoryStorage_Get k (storage c) of
        None \<Rightarrow> (Inl (ItemNotFound k), c)
      | Some v \<Rightarrow>
          if Item_Expired v now then (Inl (ItemNotFound k), c)
          else
            (case Object v of
               VUint64 rv \<Rightarrow>
                 let nv = rv - n
                 in (Inr nv,
                     c\<lparr>storage := memoryStorage_Set k (v\<lparr>Object := VUint64 nv\<rparr>) (storage c)\<rparr>)
             | _ \<Rightarrow> (Inl (NotA k ''uint64''), c)))"

definition cache_DecrementFloat32 ::
  "('f, 'd) float_ops \<Rightarrow> key \<Rightarrow> 'f \<Rightarrow> int64 \<Rightarrow> ('f, 'd) cache
     \<Rightarrow> (error + 'f) \<times> ('f, 'd) cache" where
  "cache_DecrementFloat32 F k n now c =
     (case memoryStorage_Get k (storage c) of
        None \<Rightarrow> (Inl (ItemNotFound k), c)
      | Some v \<Rightarrow>
          if Item_Expired v now then (Inl (ItemNotFound k), c)
          else
            (case Object v of
               VFloat32 rv \<Rightarrow>
                 let nv = sub32 F rv n
                 in (Inr nv,
                     c\<lparr>storage := memoryStorage_Set k (v\<lparr>Object := VFloat32 nv\<rparr>) (storage c)\<rparr>)
             | _ \<Rightarrow> (Inl (NotA k ''float32''), c)))"

definition cache_DecrementFloat64 ::
  "('f, 'd) float_ops \<Rightarrow> key \<Rightarrow> 'd \<Rightarrow> int64 \<Rightarrow> ('f, 'd) cache
     \<Rightarrow> (error + 'd) \<times> ('f, 'd) cache" where
  "cache_DecrementFloat64 F k n now c =
     (case memoryStorage_Get k (storage c) of
        None \<Rightarrow> (Inl (ItemNotFound k), c)
      | Some v \<Rightarrow>
          if Item_Expired v now then (Inl (ItemNotFound k), c)
          else
            (case Object v of
               VFloat64 rv \<Rightarrow>
                 let nv = sub64 F rv n
                 in (Inr nv,
                     c\<lparr>storage := memoryStorage_Set k (v\<lparr>Object := VFloat64 nv\<rparr>) (storage c)\<rparr>)
             | _ \<Rightarrow> (Inl (NotA k ''float64''), c)))"

section \<open>Notions used by the properties\<close>

text \<open>
  Wraparound as the specification words it, on mathematical integers: a signed type of
  \<open>w\<close> bits holds the numbers from \<open>-2^(w-1)\<close> to \<open>2^(w-1) - 1\<close>, an unsigned one
  those from 0 to \<open>2^w - 1\<close>, and a result outside the range re-enters it modulo \<open>2^w\<close>.
\<close>

definition wrap_signed :: "nat \<Rightarrow> int \<Rightarrow> int" where
  "wrap_signed w i = (i + 2 ^ (w - 1)) mod 2 ^ w - 2 ^ (w - 1)"

definition wrap_unsigned :: "nat \<Rightarrow> int \<Rightarrow> int" where
  "wrap_unsigned w i = i mod 2 ^ w"

text \<open>
  The number that a stored integer denotes, the wraparound of its type, and the name of
  its dynamic type.
\<close>

fun int_value :: "('f, 'd) obj \<Rightarrow> int option" where
  "int_value (VInt x) = Some (sint x)"
| "int_value (VInt8 x) = Some (sint x)"
| "int_value (VInt16 x) = Some (sint x)"
| "int_value (VInt32 x) = Some (sint x)"
| "int_value (VInt64 x) = Some (sint x)"
| "int_value (VUint x) = Some (uint x)"
| "int_value (VUintptr x) = Some (uint x)"
| "int_value (VUint8 x) = Some (uint x)"
| "int_value (VUint16 x) = Some (uint x)"
| "int_value (VUint32 x) = Some (uint x)"
| "int_value (VUint64 x) = Some (uint x)"
| "int_value _ = None"

fun wraparound :: "('f, 'd) obj \<Rightarrow> int \<Rightarrow> int" where
  "wraparound (VInt _) i = wrap_signed 64 i"
| "wraparound (VInt8 _) i = wrap_signed 8 i"
| "wraparound (VInt16 _) i = wrap_signed 16 i"
| "wraparound (VInt32 _) i = wrap_signed 32 i"
| "wraparound (VInt64 _) i = wrap_signed 64 i"
| "wraparound (VUint _) i = wrap_unsigned 64 i"
| "wraparound (VUintptr _) i = wrap_unsigned 64 i"
| "wraparound (VUint8 _) i = wrap_unsigned 8 i"
| "wraparound (VUint16 _) i = wrap_unsigned 16 i"
| "wraparound (VUint32 _) i = wrap_unsigned 32 i"
| "wraparound (VUint64 _) i = wrap_unsigned 64 i"
| "wraparound _ i = i"

fun type_name :: "('f, 'd) obj \<Rightarrow> string" where
  "type_name Nil = ''nil''"
| "type_name (VInt _) = ''int''"
| "type_name (VInt8 _) = ''int8''"
| "type_name (VInt16 _) = ''int16''"
| "type_name (VInt32 _) = ''int32''"
| "type_name (VInt64 _) = ''int64''"
| "type_name (VUint _) = ''uint''"
| "type_name (VUintptr _) = ''uintptr''"
| "type_name (VUint8 _) = ''uint8''"
| "type_name (VUint16 _) = ''uint16''"
| "type_name (VUint32 _) = ''uint32''"
| "type_name (VUint64 _) = ''uint64''"
| "type_name (VFloat32 _) = ''float32''"
| "type_name (VFloat64 _) = ''float64''"
| "type_name (VOther _) = ''other''"

text \<open>
  A stand-in for the floating-point operations, with the integers as both formats; it
  serves to run the operations on examples that store no floating-point value.
\<close>

definition example_float_ops :: "(int, int) float_ops" where
  "example_float_ops =
     \<lparr>add32 = (+), sub32 = (-), add64 = (+), sub64 = (-),
      float32_of_int64 = sint, float64_of_int64 = sint, float32_of_float64 = id\<rparr>"

text \<open>
  What the specification says of a typed variant \<open>f\<close> for the type named \<open>ty\<close>, whose
  values are stored as \<open>mk x\<close> and combined by \<open>opn\<close>: not found for a key that is
  absent or expired; a type error when the stored value is not of exactly that type; else
  the new value is written back and returned.
\<close>

definition typed_variant_ok ::
  "(key \<Rightarrow> 'a \<Rightarrow> int64 \<Rightarrow> ('f, 'd) cache \<Rightarrow> (error + 'a) \<times> ('f, 'd) cache)
     \<Rightarrow> ('a \<Rightarrow> ('f, 'd) obj) \<Rightarrow> string \<Rightarrow> ('a \<Rightarrow> 'a \<Rightarrow> 'a) \<Rightarrow> bool" where
  "typed_variant_ok f mk ty opn \<longleftrightarrow>
     (\<forall>k n now c.
        (case items (storage c) k of
           None \<Rightarrow> f k n now c = (Inl (ItemNotFound k), c)
         | Some it \<Rightarrow>
             if Item_Expired it now then f k n now c = (Inl (ItemNotFound k), c)
             else if type_name (Object it) \<noteq> ty then f k n now c = (Inl (NotA k ty), c)
             else (\<exists>x. Object it = mk x \<and>
                    f k n now c =
                      (Inr (opn x n),
                       c\<lparr>storage := (storage c)
                           \<lparr>items := (items (storage c))(k \<mapsto> it\<lparr>Object := mk (opn x n)\<rparr>)\<rparr>\<rparr>))))"

text \<open>
  Between \<open>c\<close> and \<open>c'\<close> only the value stored under \<open>k\<close> changed: the entry keeps its
  expiration and its refresh deadline, and nothing else in the cache differs.
\<close>

definition only_object_changed :: "key \<Rightarrow> ('f, 'd) cache \<Rightarrow> ('f, 'd) cache \<Rightarrow> bool" where
  "only_object_changed k c c' \<longleftrightarrow>
     (case (items (storage c) k, items (storage c') k) of
        (Some it, Some it') \<Rightarrow>
          Expiration it' = Expiration it \<and>
          RefreshDeadline it' = RefreshDeadline it \<and>
          c' = c\<lparr>storage := (storage c)
                  \<lparr>items := (items (storage c))(k \<mapsto> it\<lparr>Object := Object it'\<rparr>)\<rparr>\<rparr>
      | _ \<Rightarrow> False)"

definition untyped_keeps_timestamps ::
  "(key \<Rightarrow> 'n \<Rightarrow> int64 \<Rightarrow> ('f, 'd) cache \<Rightarrow> error option \<times> ('f, 'd) cache) \<Rightarrow> bool" where
  "untyped_keeps_timestamps f \<longleftrightarrow>
     (\<forall>k n now c. fst (f k n now c) = None
        \<longrightarrow> only_object_changed k c (snd (f k n now c)))"

definition typed_keeps_timestamps ::
  "(key \<Rightarrow> 'a \<Rightarrow> int64 \<Rightarrow> ('f, 'd) cache \<Rightarrow> (error + 'a) \<times> ('f, 'd) cache) \<Rightarrow> bool" where
  "typed_keeps_timestamps f \<longleftrightarrow>
     (\<forall>k n now c. \<not> isl (fst (f k n now c))
        \<longrightarrow> only_object_changed k c (snd (f k n now c)))"

section \<open>Lookups\<close>

lemma cache_set_eq_Set: "cache_set k x d rd now c = cache_Set k x d rd now c"
  by (simp add: cache_set_def cache_Set_def)

lemma cache_get_absent:
  "items (storage c) k = None \<Longrightarrow> cache_get k now c = ((Nil, False), c)"
  by (simp add: cache_get_def memoryStorage_Get_def)

lemma cache_get_past:
  "items (storage c) k = Some it \<Longrightarrow> 0 <s Expiration it \<Longrightarrow> Expiration it <s now
     \<Longrightarrow> cache_get k now c = ((Nil, False), c)"
  by (simp add: cache_get_def memoryStorage_Get_def)

lemma cache_get_found:
  "items (storage c) k = Some it \<Longrightarrow> \<not> (0 <s Expiration it \<and> Expiration it <s now)
     \<Longrightarrow> fst (cache_get k now c) = (Object it, True)"
  by (auto simp: cache_get_def memoryStorage_Get_def Let_def split: option.splits)

lemma cache_get_storage: "storage (snd (cache_get k now c)) = storage c"
  by (auto simp: cache_get_def memoryStorage_Get_def Let_def split: option.splits)

lemma cache_get_defaultExpiration:
  "defaultExpiration (snd (cache_get k now c)) = defaultExpiration c"
  by (auto simp: cache_get_def memoryStorage_Get_def Let_def split: option.splits)

lemma cache_Get_absent:
  "items (storage c) k = None \<Longrightarrow> cache_Get k now c = ((Nil, False), c)"
  by (simp add: cache_Get_def memoryStorage_Get_def)

lemma cache_Get_past:
  "items (storage c) k = Some it \<Longrightarrow> 0 <s Expiration it \<Longrightarrow> Expiration it <s now
     \<Longrightarrow> cache_Get k now c = ((Nil, False), c)"
  by (simp add: cache_Get_def memoryStorage_Get_def)

lemma cache_Get_found:
  "items (storage c) k = Some it \<Longrightarrow> \<not> (0 <s Expiration it \<and> Expiration it <s now)
     \<Longrightarrow> fst (cache_Get k now c) = (Object it, True)"
  by (auto simp: cache_Get_def memoryStorage_Get_def Let_def split: option.splits)

text \<open>
  A timestamp \<open>now + d\<close> with \<open>d\<close> positive is never a positive time before \<open>now\<close>:
  either the sum does not overflow and is later than \<open>now\<close>, or it wraps to a negative
  number.
\<close>

lemma wrapped_sum_not_earlier:
  fixes a b :: int
  assumes "- (2^63) \<le> a" "a < 2^63" "0 < b" "b < 2^63"
  shows "\<not> (0 < signed_take_bit 63 (a + b) \<and> signed_take_bit 63 (a + b) < a)"
proof (cases "a + b < 2^63")
  case True
  then have "signed_take_bit 63 (a + b) = a + b"
    using assms by (simp add: signed_take_bit_int_eq_self)
  then show ?thesis using assms by simp
next
  case False
  define t where "t = signed_take_bit 63 (a + b)"
  have s1: "t = take_bit 64 (a + b + 2^63) - 2^63"
    by (simp add: t_def signed_take_bit_eq_take_bit_shift)
  have s2: "take_bit 64 (a + b + 2^63) = a + b + 2^63 - 2^64"
  proof -
    define y where "y = a + b - 2^63"
    have y: "0 \<le> y" "y < 2^64"
      using False assms by (simp_all add: y_def)
    have e: "a + b + 2^63 = y + 2^64"
      by (simp add: y_def)
    have "(y + 2^64) mod 2^64 = y mod 2^64"
      by (rule mod_add_self2)
    also have "\<dots> = y"
      using y by (rule mod_pos_pos_trivial)
    finally have "(a + b + 2^63) mod 2^64 = y"
      by (simp only: e)
    then show ?thesis
      by (simp add: take_bit_eq_mod y_def)
  qed
  have "t = a + b - 2^64"
    unfolding s1 s2 by simp
  then have "t < 0"
    using assms by simp
  then have "\<not> (0 < t \<and> t < a)"
    by simp
  then show ?thesis
    unfolding t_def .
qed

lemma deadline_not_passed_at_once:
  fixes now d :: "64 word"
  assumes "0 <s d"
  shows "\<not> (0 <s now + d \<and> now + d <s now)"
proof -
  have r: "- (2^63) \<le> sint now" "sint now < 2^63" "sint d < 2^63"
    using sint_range_size [of now] sint_range_size [of d] by (simp_all add: word_size)
  have p: "0 < sint d" using assms by (simp add: word_sless_alt)
  have "sint (now + d) = signed_take_bit 63 (sint now + sint d)"
    by (simp add: sint_word_ariths)
  then show ?thesis
    using wrapped_sum_not_earlier [OF r(1) r(2) p r(3)] by (simp add: word_sless_alt)
qed

section \<open>Entries that never expire\<close>

lemma resolved_nonpositive_item:
  assumes "(if d = DefaultExpiration then defaultExpiration c else d) \<le>s 0"
  shows "items (storage (cache_Set k v d rd now c)) k =
           Some \<lparr>Object = v, Expiration = 0,
                 RefreshDeadline = (if 0 <s rd then now + rd else 0)\<rparr>"
  using assms
  by (auto simp: cache_Set_def memoryStorage_Set_def Let_def word_sless_alt word_sle_eq)

lemma Get_never_expiring:
  assumes "items (storage c) k = Some it" and "Expiration it = 0"
  shows "fst (cache_Get k later c) = (Object it, True)"
  using assms
  by (simp add: cache_Get_def memoryStorage_Get_def Let_def split: option.splits)

text \<open>
  Claim C4.  A cache built with default expiration 0 has the default \<open>NoExpiration\<close>
  (\<open>-1\<close>).  A \<open>Set\<close> whose resolved duration (the default when \<open>d\<close> is
  \<open>DefaultExpiration\<close>, else \<open>d\<close>) is not positive stores an entry with expiration 0,
  and \<open>Get\<close> returns the value at every later reading of the clock.
\<close>

theorem never_expiring_entry:
  "defaultExpiration (newCache 0 s w) = NoExpiration \<and>
   ((if d = DefaultExpiration then defaultExpiration c else d) \<le>s 0 \<longrightarrow>
      (\<exists>it. items (storage (cache_Set k v d rd now c)) k = Some it \<and>
            Object it = v \<and> Expiration it = 0) \<and>
      (\<forall>later. fst (cache_Get k later (cache_Set k v d rd now c)) = (v, True)))"
proof (intro conjI impI allI)
  show "defaultExpiration (newCache 0 s w) = NoExpiration"
    by (simp add: newCache_def NoExpiration_def)
next
  assume h: "(if d = DefaultExpiration then defaultExpiration c else d) \<le>s 0"
  show "\<exists>it. items (storage (cache_Set k v d rd now c)) k = Some it \<and>
            Object it = v \<and> Expiration it = 0"
    using resolved_nonpositive_item [OF h] by simp
next
  fix later
  assume h: "(if d = DefaultExpiration then defaultExpiration c else d) \<le>s 0"
  show "fst (cache_Get k later (cache_Set k v d rd now c)) = (v, True)"
    using Get_never_expiring [OF resolved_nonpositive_item [OF h]] by simp
qed

theorem never_expiring_entry_witness:
  "(if DefaultExpiration = DefaultExpiration
      then defaultExpiration (newCache 0 MemoryStorage 0 :: (int, int) cache)
      else DefaultExpiration) \<le>s 0 \<and>
   fst (cache_Get ''b'' 99999
          (cache_Set ''b'' (VInt 2) DefaultExpiration NoRefreshDeadline 5
             (newCache 0 MemoryStorage 0 :: (int, int) cache))) = (VInt 2, True)"
proof -
  have h: "(if DefaultExpiration = DefaultExpiration
      then defaultExpiration (newCache 0 MemoryStorage 0 :: (int, int) cache)
      else DefaultExpiration) \<le>s 0"
    by (simp add: newCache_def word_sle_eq)
  from h never_expiring_entry [of MemoryStorage 0 DefaultExpiration
      "newCache 0 MemoryStorage 0 :: (int, int) cache" "''b''" "VInt 2" NoRefreshDeadline 5]
  show ?thesis by blast
qed

section \<open>Increment and Decrement\<close>

text \<open>Converting to a narrower type and adding there is adding the numbers and wrapping.\<close>

lemma ucast_eq_of_sint:
  fixes n :: "'b::len word"
  assumes "LENGTH('a::len) \<le> LENGTH('b)"
  shows "(ucast n :: 'a word) = word_of_int (sint n)"
proof (rule bit_word_eqI)
  fix i assume "i < LENGTH('a)"
  then have m: "min (LENGTH('b) - Suc 0) i = i" using assms by simp
  show "bit (ucast n :: 'a word) i = bit (word_of_int (sint n) :: 'a word) i"
    using \<open>i < LENGTH('a)\<close> by (simp add: bit_simps m)
qed

lemma word_of_sint: "(word_of_int (sint x) :: 'a::len word) = x"
  by simp

lemma word_of_uint: "(word_of_int (uint x) :: 'a::len word) = x"
  by simp

lemma wrap_signed_eq: "0 < w \<Longrightarrow> wrap_signed w i = signed_take_bit (w - 1) i"
  by (cases w) (simp_all add: wrap_signed_def signed_take_bit_eq_take_bit_shift take_bit_eq_mod)

lemma wrap_unsigned_eq: "wrap_unsigned w i = take_bit w i"
  by (simp add: wrap_unsigned_def take_bit_eq_mod)

lemma sint_plus_conv:
  fixes x :: "'a::len word" and n :: "'b::len word"
  assumes "LENGTH('a) \<le> LENGTH('b)"
  shows "sint (x + ucast n) = wrap_signed LENGTH('a) (sint x + sint n)"
proof -
  have "x + ucast n = word_of_int (sint x + sint n)"
    by (simp add: ucast_eq_of_sint [OF assms])
  then have "sint (x + ucast n) = signed_take_bit (LENGTH('a) - 1) (sint x + sint n)"
    by (simp only: sint_sbintrunc')
  then show ?thesis by (simp add: wrap_signed_eq)
qed

lemma sint_minus_conv:
  fixes x :: "'a::len word" and n :: "'b::len word"
  assumes "LENGTH('a) \<le> LENGTH('b)"
  shows "sint (x - ucast n) = wrap_signed LENGTH('a) (sint x - sint n)"
proof -
  have "x - ucast n = word_of_int (sint x - sint n)"
    by (simp add: ucast_eq_of_sint [OF assms])
  then have "sint (x - ucast n) = signed_take_bit (LENGTH('a) - 1) (sint x - sint n)"
    by (simp only: sint_sbintrunc')
  then show ?thesis by (simp add: wrap_signed_eq)
qed

lemma uint_plus_conv:
  fixes x :: "'a::len word" and n :: "'b::len word"
  assumes "LENGTH('a) \<le> LENGTH('b)"
  shows "uint (x + ucast n) = wrap_unsigned LENGTH('a) (uint x + sint n)"
proof -
  have "x + ucast n = word_of_int (uint x + sint n)"
    by (simp add: ucast_eq_of_sint [OF assms])
  then have "uint (x + ucast n) = take_bit LENGTH('a) (uint x + sint n)"
    by (simp only: uint_word_of_int_eq)
  then show ?thesis by (simp add: wrap_unsigned_eq)
qed

lemma uint_minus_conv:
  fixes x :: "'a::len word" and n :: "'b::len word"
  assumes "LENGTH('a) \<le> LENGTH('b)"
  shows "uint (x - ucast n) = wrap_unsigned LENGTH('a) (uint x - sint n)"
proof -
  have "x - ucast n = word_of_int (uint x - sint n)"
    by (simp add: ucast_eq_of_sint [OF assms])
  then have "uint (x - ucast n) = take_bit LENGTH('a) (uint x - sint n)"
    by (simp only: uint_word_of_int_eq)
  then show ?thesis by (simp add: wrap_unsigned_eq)
qed


lemma sint_plus_same:
  fixes x n :: "64 word"
  shows "sint (x + n) = wrap_signed 64 (sint x + sint n)"
  using sint_plus_conv [of x n] by simp

lemma sint_minus_same:
  fixes x n :: "64 word"
  shows "sint (x - n) = wrap_signed 64 (sint x - sint n)"
  using sint_minus_conv [of x n] by simp

lemma uint_plus_same:
  fixes x n :: "64 word"
  shows "uint (x + n) = wrap_unsigned 64 (uint x + sint n)"
  using uint_plus_conv [of x n] by simp

lemma uint_minus_same:
  fixes x n :: "64 word"
  shows "uint (x - n) = wrap_unsigned 64 (uint x - sint n)"
  using uint_minus_conv [of x n] by simp

lemmas wrap_convs = sint_plus_conv sint_minus_conv uint_plus_conv uint_minus_conv
  sint_plus_same sint_minus_same uint_plus_same uint_minus_same

lemma Increment_ok:
  assumes "items (storage c) k = Some it0"
    and "fst (cache_Increment F k n now c) = None"
  shows "\<exists>it1. items (storage (snd (cache_Increment F k n now c))) k = Some it1 \<and>
              snd (cache_Increment F k n now c)
                 = c\<lparr>storage := memoryStorage_Set k it1 (storage c)\<rparr> \<and>
              it1 = it0\<lparr>Object := Object it1\<rparr> \<and>
              type_name (Object it1) = type_name (Object it0) \<and>
              (int_value (Object it0) \<noteq> None \<or>
                 type_name (Object it0) \<in> {''float32'', ''float64''}) \<and>
              (\<forall>i. int_value (Object it0) = Some i
                 \<longrightarrow> int_value (Object it1) = Some (wraparound (Object it0) (i + sint n))) \<and>
              (\<forall>x. Object it0 = VFloat32 x
                 \<longrightarrow> Object it1 = VFloat32 (add32 F x (float32_of_int64 F n))) \<and>
              (\<forall>x. Object it0 = VFloat64 x
                 \<longrightarrow> Object it1 = VFloat64 (add64 F x (float64_of_int64 F n)))"
  using assms
  by (cases "Object it0")
     (simp_all add: cache_Increment_def memoryStorage_Get_def memoryStorage_Set_def wrap_convs
        split: if_splits)

lemma Decrement_ok:
  assumes "items (storage c) k = Some it0"
    and "fst (cache_Decrement F k n now c) = None"
  shows "\<exists>it1. items (storage (snd (cache_Decrement F k n now c))) k = Some it1 \<and>
              snd (cache_Decrement F k n now c)
                 = c\<lparr>storage := memoryStorage_Set k it1 (storage c)\<rparr> \<and>
              it1 = it0\<lparr>Object := Object it1\<rparr> \<and>
              type_name (Object it1) = type_name (Object it0) \<and>
              (int_value (Object it0) \<noteq> None \<or>
                 type_name (Object it0) \<in> {''float32'', ''float64''}) \<and>
              (\<forall>i. int_value (Object it0) = Some i
                 \<longrightarrow> int_value (Object it1) = Some (wraparound (Object it0) (i - sint n))) \<and>
              (\<forall>x. Object it0 = VFloat32 x
                 \<longrightarrow> Object it1 = VFloat32 (sub32 F x (float32_of_int64 F n))) \<and>
              (\<forall>x. Object it0 = VFloat64 x
                 \<longrightarrow> Object it1 = VFloat64 (sub64 F x (float64_of_int64 F n)))"
  using assms
  by (cases "Object it0")
     (simp_all add: cache_Decrement_def memoryStorage_Get_def memoryStorage_Set_def wrap_convs
        split: if_splits)


lemma Set_stores:
  "\<exists>it0. items (storage (cache_Set k v d rd now c)) k = Some it0 \<and> Object it0 = v"
  by (simp add: cache_Set_def memoryStorage_Set_def Let_def)

lemma Set_stores_item:
  "items (storage (cache_Set k v d rd now c)) k =
     Some \<lparr>Object = v,
           Expiration =
             (if 0 <s (if d = DefaultExpiration then defaultExpiration c else d)
              then now + (if d = DefaultExpiration then defaultExpiration c else d) else 0),
           RefreshDeadline = (if 0 <s rd then now + rd else 0)\<rparr>"
  by (simp add: cache_Set_def memoryStorage_Set_def Let_def)

lemma Get_of_not_Expired:
  assumes "items (storage c) k = Some it" and "\<not> Item_Expired it later"
  shows "fst (cache_Get k later c) = (Object it, True)"
proof -
  have "\<not> (0 <s Expiration it \<and> Expiration it <s later)"
  proof (cases "Expiration it = 0")
    case True
    then show ?thesis by (simp add: word_sless_alt)
  next
    case False
    then show ?thesis using assms(2) by (simp add: Item_Expired_def)
  qed
  with assms(1) show ?thesis by (rule cache_Get_found)
qed

text \<open>
  \<open>Increment\<close> and \<open>Decrement\<close> succeed exactly on an entry that holds a value of one of
  the thirteen numeric types and of which \<open>Item.Expired\<close> is false.
\<close>

lemma Increment_succeeds_iff:
  assumes "items (storage c) k = Some it0"
  shows "(fst (cache_Increment F k n now c) = None) =
           ((int_value (Object it0) \<noteq> None \<or>
               type_name (Object it0) \<in> {''float32'', ''float64''}) \<and>
            \<not> Item_Expired it0 now)"
  using assms
  by (cases "Object it0") (simp_all add: cache_Increment_def memoryStorage_Get_def)

lemma Decrement_succeeds_iff:
  assumes "items (storage c) k = Some it0"
  shows "(fst (cache_Decrement F k n now c) = None) =
           ((int_value (Object it0) \<noteq> None \<or>
               type_name (Object it0) \<in> {''float32'', ''float64''}) \<and>
            \<not> Item_Expired it0 now)"
  using assms
  by (cases "Object it0") (simp_all add: cache_Decrement_def memoryStorage_Get_def)

lemma not_Expired_of_zero: "Expiration it = 0 \<Longrightarrow> \<not> Item_Expired it now"
  by (simp add: Item_Expired_def)

lemma Increment_after_Set:
  assumes "fst (cache_Increment F k n now1 (cache_Set k v d rd now0 c)) = None"
  shows
"
   (\<exists>it. items (storage (snd (cache_Increment F k n now1 (cache_Set k v d rd now0 c)))) k
               = Some it \<and>
            type_name (Object it) = type_name v \<and>
            (int_value v \<noteq> None \<or> type_name v \<in> {''float32'', ''float64''}) \<and>
            (\<forall>i. int_value v = Some i
               \<longrightarrow> int_value (Object it) = Some (wraparound v (i + sint n))) \<and>
            (\<forall>x. v = VFloat32 x
               \<longrightarrow> Object it = VFloat32 (add32 F x (float32_of_int64 F n))) \<and>
            (\<forall>x. v = VFloat64 x
               \<longrightarrow> Object it = VFloat64 (add64 F x (float64_of_int64 F n))) \<and>
            (\<forall>later. \<not> Item_Expired it later \<longrightarrow>
               fst (cache_Get k later
                      (snd (cache_Increment F k n now1 (cache_Set k v d rd now0 c))))
                 = (Object it, True)))"
proof -
  obtain it0 where s: "items (storage (cache_Set k v d rd now0 c)) k = Some it0"
    and o: "Object it0 = v"
    using Set_stores by blast
  from Increment_ok [OF s assms] obtain it1 where
    i: "items (storage (snd (cache_Increment F k n now1 (cache_Set k v d rd now0 c)))) k = Some it1"
    and r: "type_name (Object it1) = type_name (Object it0)"
       "int_value (Object it0) \<noteq> None \<or> type_name (Object it0) \<in> {''float32'', ''float64''}"
       "\<forall>i. int_value (Object it0) = Some i
                 \<longrightarrow> int_value (Object it1) = Some (wraparound (Object it0) (i + sint n))"
       "\<forall>x. Object it0 = VFloat32 x
                 \<longrightarrow> Object it1 = VFloat32 (add32 F x (float32_of_int64 F n))"
       "\<forall>x. Object it0 = VFloat64 x
                 \<longrightarrow> Object it1 = VFloat64 (add64 F x (float64_of_int64 F n))"
    by blast
  have g: "\<forall>later. \<not> Item_Expired it1 later \<longrightarrow>
               fst (cache_Get k later
                      (snd (cache_Increment F k n now1 (cache_Set k v d rd now0 c))))
                 = (Object it1, True)"
    using Get_of_not_Expired [OF i] by blast
  show ?thesis
    using i r g unfolding o by blast
qed

lemma Decrement_after_Set:
  assumes "fst (cache_Decrement F k n now1 (cache_Set k v d rd now0 c)) = None"
  shows
"
   (\<exists>it. items (storage (snd (cache_Decrement F k n now1 (cache_Set k v d rd now0 c)))) k
               = Some it \<and>
            type_name (Object it) = type_name v \<and>
            (int_value v \<noteq> None \<or> type_name v \<in> {''float32'', ''float64''}) \<and>
            (\<forall>i. int_value v = Some i
               \<longrightarrow> int_value (Object it) = Some (wraparound v (i - sint n))) \<and>
            (\<forall>x. v = VFloat32 x
               \<longrightarrow> Object it = VFloat32 (sub32 F x (float32_of_int64 F n))) \<and>
            (\<forall>x. v = VFloat64 x
               \<longrightarrow> Object it = VFloat64 (sub64 F x (float64_of_int64 F n))) \<and>
            (\<forall>later. \<not> Item_Expired it later \<longrightarrow>
               fst (cache_Get k later
                      (snd (cache_Decrement F k n now1 (cache_Set k v d rd now0 c))))
                 = (Object it, True)))"
proof -
  obtain it0 where s: "items (storage (cache_Set k v d rd now0 c)) k = Some it0"
    and o: "Object it0 = v"
    using Set_stores by blast
  from Decrement_ok [OF s assms] obtain it1 where
    i: "items (storage (snd (cache_Decrement F k n now1 (cache_Set k v d rd now0 c)))) k = Some it1"
    and r: "type_name (Object it1) = type_name (Object it0)"
       "int_value (Object it0) \<noteq> None \<or> type_name (Object it0) \<in> {''float32'', ''float64''}"
       "\<forall>i. int_value (Object it0) = Some i
                 \<longrightarrow> int_value (Object it1) = Some (wraparound (Object it0) (i - sint n))"
       "\<forall>x. Object it0 = VFloat32 x
                 \<longrightarrow> Object it1 = VFloat32 (sub32 F x (float32_of_int64 F n))"
       "\<forall>x. Object it0 = VFloat64 x
                 \<longrightarrow> Object it1 = VFloat64 (sub64 F x (float64_of_int64 F n))"
    by blast
  have g: "\<forall>later. \<not> Item_Expired it1 later \<longrightarrow>
               fst (cache_Get k later
                      (snd (cache_Decrement F k n now1 (cache_Set k v d rd now0 c))))
                 = (Object it1, True)"
    using Get_of_not_Expired [OF i] by blast
  show ?thesis
    using i r g unfolding o by blast
qed

lemma Increment_Decrement_succeed_after_Set:
  "(\<exists>it0. items (storage (cache_Set k v d rd now0 c)) k = Some it0 \<and> Object it0 = v \<and>
      ((fst (cache_Increment F k n now1 (cache_Set k v d rd now0 c)) = None) =
         ((int_value v \<noteq> None \<or> type_name v \<in> {''float32'', ''float64''}) \<and>
          \<not> Item_Expired it0 now1)) \<and>
      ((fst (cache_Decrement F k n now1 (cache_Set k v d rd now0 c)) = None) =
         ((int_value v \<noteq> None \<or> type_name v \<in> {''float32'', ''float64''}) \<and>
          \<not> Item_Expired it0 now1)))"
proof -
  let ?it0 = "\<lparr>Object = v,
           Expiration =
             (if 0 <s (if d = DefaultExpiration then defaultExpiration c else d)
              then now0 + (if d = DefaultExpiration then defaultExpiration c else d) else 0),
           RefreshDeadline = (if 0 <s rd then now0 + rd else 0)\<rparr>"
  have s: "items (storage (cache_Set k v d rd now0 c)) k = Some ?it0"
    by (rule Set_stores_item)
  have i: "(fst (cache_Increment F k n now1 (cache_Set k v d rd now0 c)) = None) =
         ((int_value v \<noteq> None \<or> type_name v \<in> {''float32'', ''float64''}) \<and>
          \<not> Item_Expired ?it0 now1)"
    using Increment_succeeds_iff [OF s, of F n now1] by simp
  have d: "(fst (cache_Decrement F k n now1 (cache_Set k v d rd now0 c)) = None) =
         ((int_value v \<noteq> None \<or> type_name v \<in> {''float32'', ''float64''}) \<and>
          \<not> Item_Expired ?it0 now1)"
    using Decrement_succeeds_iff [OF s, of F n now1] by simp
  have o: "Object ?it0 = v" by simp
  show ?thesis
    by (rule exI [of _ ?it0]) (intro conjI s o i d)
qed

lemma Increment_Decrement_succeed_on_never_expiring:
  "((int_value v \<noteq> None \<or> type_name v \<in> {''float32'', ''float64''}) \<and>
    (if d = DefaultExpiration then defaultExpiration c else d) \<le>s 0 \<longrightarrow>
      fst (cache_Increment F k n now1 (cache_Set k v d rd now0 c)) = None \<and>
      fst (cache_Decrement F k n now1 (cache_Set k v d rd now0 c)) = None)"
proof (intro impI)
  assume h: "(int_value v \<noteq> None \<or> type_name v \<in> {''float32'', ''float64''}) \<and>
    (if d = DefaultExpiration then defaultExpiration c else d) \<le>s 0"
  obtain it0 where s: "items (storage (cache_Set k v d rd now0 c)) k = Some it0"
    and e: "Expiration it0 = 0" and o: "Object it0 = v"
    using resolved_nonpositive_item [of d c k v rd now0] h by simp
  have n: "\<not> Item_Expired it0 now1"
    using e by (rule not_Expired_of_zero)
  show "fst (cache_Increment F k n now1 (cache_Set k v d rd now0 c)) = None \<and>
      fst (cache_Decrement F k n now1 (cache_Set k v d rd now0 c)) = None"
    using Increment_succeeds_iff [OF s, of F n now1] Decrement_succeeds_iff [OF s, of F n now1]
      h n o by simp
qed

text \<open>
  Claim C1.  After \<open>Set(k, v, ...)\<close>, \<open>Increment(k, n)\<close> and \<open>Decrement(k, n)\<close> succeed
  exactly when \<open>v\<close> is of one of the thirteen numeric types and \<open>Item.Expired\<close> is false
  of the stored entry at the call; so they succeed at every reading of the clock when the
  resolved duration is not positive.  A successful call leaves under \<open>k\<close> a value of the
  type of \<open>v\<close>.  For the eleven integer types the number stored is the sum (or
  difference) of the numbers denoted by \<open>v\<close> and \<open>n\<close>, wrapped into the range of the
  type; for the two floating-point types it is the sum (or difference) in that format of
  \<open>v\<close> and the converted \<open>n\<close>.  A \<open>Get\<close> that follows, at a reading of the clock at
  which the entry has not expired, returns that value.
\<close>

theorem Increment_Decrement_wrap_in_stored_type:
  "(\<exists>it0. items (storage (cache_Set k v d rd now0 c)) k = Some it0 \<and> Object it0 = v \<and>
      ((fst (cache_Increment F k n now1 (cache_Set k v d rd now0 c)) = None) =
         ((int_value v \<noteq> None \<or> type_name v \<in> {''float32'', ''float64''}) \<and>
          \<not> Item_Expired it0 now1)) \<and>
      ((fst (cache_Decrement F k n now1 (cache_Set k v d rd now0 c)) = None) =
         ((int_value v \<noteq> None \<or> type_name v \<in> {''float32'', ''float64''}) \<and>
          \<not> Item_Expired it0 now1))) \<and>
   ((int_value v \<noteq> None \<or> type_name v \<in> {''float32'', ''float64''}) \<and>
    (if d = DefaultExpiration then defaultExpiration c else d) \<le>s 0 \<longrightarrow>
      fst (cache_Increment F k n now1 (cache_Set k v d rd now0 c)) = None \<and>
      fst (cache_Decrement F k n now1 (cache_Set k v d rd now0 c)) = None) \<and>
   (fst (cache_Increment F k n now1 (cache_Set k v d rd now0 c)) = None \<longrightarrow>
      (\<exists>it. items (storage (snd (cache_Increment F k n now1 (cache_Set k v d rd now0 c)))) k
               = Some it \<and>
            type_name (Object it) = type_name v \<and>
            (int_value v \<noteq> None \<or> type_name v \<in> {''float32'', ''float64''}) \<and>
            (\<forall>i. int_value v = Some i
               \<longrightarrow> int_value (Object it) = Some (wraparound v (i + sint n))) \<and>
            (\<forall>x. v = VFloat32 x
               \<longrightarrow> Object it = VFloat32 (add32 F x (float32_of_int64 F n))) \<and>
            (\<forall>x. v = VFloat64 x
               \<longrightarrow> Object it = VFloat64 (add64 F x (float64_of_int64 F n))) \<and>
            (\<forall>later. \<not> Item_Expired it later \<longrightarrow>
               fst (cache_Get k later
                      (snd (cache_Increment F k n now1 (cache_Set k v d rd now0 c))))
                 = (Object it, True)))) \<and>
   (fst (cache_Decrement F k n now1 (cache_Set k v d rd now0 c)) = None \<longrightarrow>
      (\<exists>it. items (storage (snd (cache_Decrement F k n now1 (cache_Set k v d rd now0 c)))) k
               = Some it \<and>
            type_name (Object it) = type_name v \<and>
            (int_value v \<noteq> None \<or> type_name v \<in> {''float32'', ''float64''}) \<and>
            (\<forall>i. int_value v = Some i
               \<longrightarrow> int_value (Object it) = Some (wraparound v (i - sint n))) \<and>
            (\<forall>x. v = VFloat32 x
               \<longrightarrow> Object it = VFloat32 (sub32 F x (float32_of_int64 F n))) \<and>
            (\<forall>x. v = VFloat64 x
               \<longrightarrow> Object it = VFloat64 (sub64 F x (float64_of_int64 F n))) \<and>
            (\<forall>later. \<not> Item_Expired it later \<longrightarrow>
               fst (cache_Get k later
                      (snd (cache_Decrement F k n now1 (cache_Set k v d rd now0 c))))
                 = (Object it, True))))"
  using Increment_Decrement_succeed_after_Set [of k v d rd now0 c F n now1]
        Increment_Decrement_succeed_on_never_expiring [of v d c F k n now1 rd now0]
        Increment_after_Set [of F k n now1 v d rd now0 c]
        Decrement_after_Set [of F k n now1 v d rd now0 c]
  by blast

theorem Increment_Decrement_wrap_in_stored_type_witness:
  "int_value (VInt8 127 :: (int, int) obj) = Some 127 \<and>
   (if 0 = DefaultExpiration
      then defaultExpiration (newCache 0 MemoryStorage 0 :: (int, int) cache) else 0) \<le>s 0 \<and>
   fst (cache_Increment example_float_ops ''n'' 1 6
          (cache_Set ''n'' (VInt8 127) 0 (- 1) 5 (newCache 0 MemoryStorage 0))) = None \<and>
   (\<exists>it. items (storage (snd (cache_Increment example_float_ops ''n'' 1 6
          (cache_Set ''n'' (VInt8 127) 0 (- 1) 5 (newCache 0 MemoryStorage 0))))) ''n'' = Some it \<and>
         type_name (Object it) = ''int8'' \<and> int_value (Object it) = Some (- 128)) \<and>
   fst (cache_Decrement example_float_ops ''n'' 1 6
          (cache_Set ''n'' (VUint8 0) 0 (- 1) 5 (newCache 0 MemoryStorage 0))) = None \<and>
   (\<exists>it. items (storage (snd (cache_Decrement example_float_ops ''n'' 1 6
          (cache_Set ''n'' (VUint8 0) 0 (- 1) 5 (newCache 0 MemoryStorage 0))))) ''n'' = Some it \<and>
         type_name (Object it) = ''uint8'' \<and> int_value (Object it) = Some 255)"
proof -
  let ?c = "newCache 0 MemoryStorage 0 :: (int, int) cache"
  have g1: "(int_value (VInt8 127 :: (int, int) obj) \<noteq> None \<or>
      type_name (VInt8 127 :: (int, int) obj) \<in> {''float32'', ''float64''}) \<and>
    (if 0 = DefaultExpiration then defaultExpiration ?c else 0) \<le>s 0"
    by (simp add: newCache_def DefaultExpiration_def word_sle_eq)
  have g2: "(int_value (VUint8 0 :: (int, int) obj) \<noteq> None \<or>
      type_name (VUint8 0 :: (int, int) obj) \<in> {''float32'', ''float64''}) \<and>
    (if 0 = DefaultExpiration then defaultExpiration ?c else 0) \<le>s 0"
    by (simp add: newCache_def DefaultExpiration_def word_sle_eq)
  from g1 Increment_Decrement_wrap_in_stored_type
    [of "''n''" "VInt8 127" 0 "- 1" 5 ?c example_float_ops 1 6]
  have h1: "fst (cache_Increment example_float_ops ''n'' 1 6
                   (cache_Set ''n'' (VInt8 127) 0 (- 1) 5 ?c)) = None"
    by blast
  from g2 Increment_Decrement_wrap_in_stored_type
    [of "''n''" "VUint8 0" 0 "- 1" 5 ?c example_float_ops 1 6]
  have h2: "fst (cache_Decrement example_float_ops ''n'' 1 6
                   (cache_Set ''n'' (VUint8 0) 0 (- 1) 5 ?c)) = None"
    by blast
  have w1: "wraparound (VInt8 127 :: (int, int) obj) (127 + sint (1 :: int64)) = - 128"
    by (simp add: wrap_signed_def)
  have w2: "wraparound (VUint8 0 :: (int, int) obj) (0 - sint (1 :: int64)) = 255"
    by (simp add: wrap_unsigned_def)
  from h1 Increment_Decrement_wrap_in_stored_type
    [of "''n''" "VInt8 127" 0 "- 1" 5 ?c example_float_ops 1 6]
  have a: "\<exists>it. items (storage (snd (cache_Increment example_float_ops ''n'' 1 6
          (cache_Set ''n'' (VInt8 127) 0 (- 1) 5 ?c)))) ''n'' = Some it \<and>
         type_name (Object it) = ''int8'' \<and> int_value (Object it) = Some (- 128)"
    using w1 by auto
  from h2 Increment_Decrement_wrap_in_stored_type
    [of "''n''" "VUint8 0" 0 "- 1" 5 ?c example_float_ops 1 6]
  have b: "\<exists>it. items (storage (snd (cache_Decrement example_float_ops ''n'' 1 6
          (cache_Set ''n'' (VUint8 0) 0 (- 1) 5 ?c)))) ''n'' = Some it \<and>
         type_name (Object it) = ''uint8'' \<and> int_value (Object it) = Some 255"
    using w2 by auto
  have v: "int_value (VInt8 127 :: (int, int) obj) = Some 127"
    by simp
  from g1 v h1 a h2 b show ?thesis by blast
qed

section \<open>The typed variants\<close>

lemma IncrementInt_ok: "typed_variant_ok cache_IncrementInt VInt ''int'' (+)"
  unfolding typed_variant_ok_def cache_IncrementInt_def memoryStorage_Get_def memoryStorage_Set_def
  by (auto simp: Let_def split: option.splits obj.splits)

lemma IncrementInt_frame: "typed_keeps_timestamps cache_IncrementInt"
  unfolding typed_keeps_timestamps_def only_object_changed_def cache_IncrementInt_def
    memoryStorage_Get_def memoryStorage_Set_def
  by (auto simp: Let_def split: option.splits obj.splits)

lemma IncrementInt8_ok: "typed_variant_ok cache_IncrementInt8 VInt8 ''int8'' (+)"
  unfolding typed_variant_ok_def cache_IncrementInt8_def memoryStorage_Get_def memoryStorage_Set_def
  by (auto simp: Let_def split: option.splits obj.splits)

lemma IncrementInt8_frame: "typed_keeps_timestamps cache_IncrementInt8"
  unfolding typed_keeps_timestamps_def only_object_changed_def cache_IncrementInt8_def
    memoryStorage_Get_def memoryStorage_Set_def
  by (auto simp: Let_def split: option.splits obj.splits)

lemma IncrementInt16_ok: "typed_variant_ok cache_IncrementInt16 VInt16 ''int16'' (+)"
  unfolding typed_variant_ok_def cache_IncrementInt16_def memoryStorage_Get_def memoryStorage_Set_def
  by (auto simp: Let_def split: option.splits obj.splits)

lemma IncrementInt16_frame: "typed_keeps_timestamps cache_IncrementInt16"
  unfolding typed_keeps_timestamps_def only_object_changed_def cache_IncrementInt16_def
    memoryStorage_Get_def memoryStorage_Set_def
  by (auto simp: Let_def split: option.splits obj.splits)

lemma IncrementInt32_ok: "typed_variant_ok cache_IncrementInt32 VInt32 ''int32'' (+)"
  unfolding typed_variant_ok_def cache_IncrementInt32_def memoryStorage_Get_def memoryStorage_Set_def
  by (auto simp: Let_def split: option.splits obj.splits)

lemma IncrementInt32_frame: "typed_keeps_timestamps cache_IncrementInt32"
  unfolding typed_keeps_timestamps_def only_object_changed_def cache_IncrementInt32_def
    memoryStorage_Get_def memoryStorage_Set_def
  by (auto simp: Let_def split: option.splits obj.splits)

lemma IncrementInt64_ok: "typed_variant_ok cache_IncrementInt64 VInt64 ''int64'' (+)"
  unfolding typed_variant_ok_def cache_IncrementInt64_def memoryStorage_Get_def memoryStorage_Set_def
  by (auto simp: Let_def split: option.splits obj.splits)

lemma IncrementInt64_frame: "typed_keeps_timestamps cache_IncrementInt64"
  unfolding typed_keeps_timestamps_def only_object_changed_def cache_IncrementInt64_def
    memoryStorage_Get_def memoryStorage_Set_def
  by (auto simp: Let_def split: option.splits obj.splits)

lemma IncrementUint_ok: "typed_variant_ok cache_IncrementUint VUint ''uint'' (+)"
  unfolding typed_variant_ok_def cache_IncrementUint_def memoryStorage_Get_def memoryStorage_Set_def
  by (auto simp: Let_def split: option.splits obj.splits)

lemma IncrementUint_frame: "typed_keeps_timestamps cache_IncrementUint"
  unfolding typed_keeps_timestamps_def only_object_changed_def cache_IncrementUint_def
    memoryStorage_Get_def memoryStorage_Set_def
  by (auto simp: Let_def split: option.splits obj.splits)

lemma IncrementUintptr_ok: "typed_variant_ok cache_IncrementUintptr VUintptr ''uintptr'' (+)"
  unfolding typed_variant_ok_def cache_IncrementUintptr_def memoryStorage_Get_def memoryStorage_Set_def
  by (auto simp: Let_def split: option.splits obj.splits)

lemma IncrementUintptr_frame: "typed_keeps_timestamps cache_IncrementUintptr"
  unfolding typed_keeps_timestamps_def only_object_changed_def cache_IncrementUintptr_def
    memoryStorage_Get_def memoryStorage_Set_def
  by (auto simp: Let_def split: option.splits obj.splits)

lemma IncrementUint8_ok: "typed_variant_ok cache_IncrementUint8 VUint8 ''uint8'' (+)"
  unfolding typed_variant_ok_def cache_IncrementUint8_def memoryStorage_Get_def memoryStorage_Set_def
  by (auto simp: Let_def split: option.splits obj.splits)

lemma IncrementUint8_frame: "typed_keeps_timestamps cache_IncrementUint8"
  unfolding typed_keeps_timestamps_def only_object_changed_def cache_IncrementUint8_def
    memoryStorage_Get_def memoryStorage_Set_def
  by (auto simp: Let_def split: option.splits obj.splits)

lemma IncrementUint16_ok: "typed_variant_ok cache_IncrementUint16 VUint16 ''uint16'' (+)"
  unfolding typed_variant_ok_def cache_IncrementUint16_def memoryStorage_Get_def memoryStorage_Set_def
  by (auto simp: Let_def split: option.splits obj.splits)

lemma IncrementUint16_frame: "typed_keeps_timestamps cache_IncrementUint16"
  unfolding typed_keeps_timestamps_def only_object_changed_def cache_IncrementUint16_def
    memoryStorage_Get_def memoryStorage_Set_def
  by (auto simp: Let_def split: option.splits obj.splits)

lemma IncrementUint32_ok: "typed_variant_ok cache_IncrementUint32 VUint32 ''uint32'' (+)"
  unfolding typed_variant_ok_def cache_IncrementUint32_def memoryStorage_Get_def memoryStorage_Set_def
  by (auto simp: Let_def split: option.splits obj.splits)

lemma IncrementUint32_frame: "typed_keeps_timestamps cache_IncrementUint32"
  unfolding typed_keeps_timestamps_def only_object_changed_def cache_IncrementUint32_def
    memoryStorage_Get_def memoryStorage_Set_def
  by (auto simp: Let_def split: option.splits obj.splits)

lemma IncrementUint64_ok: "typed_variant_ok cache_IncrementUint64 VUint64 ''uint64'' (+)"
  unfolding typed_variant_ok_def cache_IncrementUint64_def memoryStorage_Get_def memoryStorage_Set_def
  by (auto simp: Let_def split: option.splits obj.splits)

lemma IncrementUint64_frame: "typed_keeps_timestamps cache_IncrementUint64"
  unfolding typed_keeps_timestamps_def only_object_changed_def cache_IncrementUint64_def
    memoryStorage_Get_def memoryStorage_Set_def
  by (auto simp: Let_def split: option.splits obj.splits)

lemma IncrementFloat32_ok: "typed_variant_ok (cache_IncrementFloat32 F) VFloat32 ''float32'' (add32 F)"
  unfolding typed_variant_ok_def cache_IncrementFloat32_def memoryStorage_Get_def memoryStorage_Set_def
  by (auto simp: Let_def split: option.splits obj.splits)

lemma IncrementFloat32_frame: "typed_keeps_timestamps (cache_IncrementFloat32 F)"
  unfolding typed_keeps_timestamps_def only_object_changed_def cache_IncrementFloat32_def
    memoryStorage_Get_def memoryStorage_Set_def
  by (auto simp: Let_def split: option.splits obj.splits)

lemma IncrementFloat64_ok: "typed_variant_ok (cache_IncrementFloat64 F) VFloat64 ''float64'' (add64 F)"
  unfolding typed_variant_ok_def cache_IncrementFloat64_def memoryStorage_Get_def memoryStorage_Set_def
  by (auto simp: Let_def split: option.splits obj.splits)

lemma IncrementFloat64_frame: "typed_keeps_timestamps (cache_IncrementFloat64 F)"
  unfolding typed_keeps_timestamps_def only_object_changed_def cache_IncrementFloat64_def
    memoryStorage_Get_def memoryStorage_Set_def
  by (auto simp: Let_def split: option.splits obj.splits)

lemma DecrementInt_ok: "typed_variant_ok cache_DecrementInt VInt ''int'' (-)"
  unfolding typed_variant_ok_def cache_DecrementInt_def memoryStorage_Get_def memoryStorage_Set_def
  by (auto simp: Let_def split: option.splits obj.splits)

lemma DecrementInt_frame: "typed_keeps_timestamps cache_DecrementInt"
  unfolding typed_keeps_timestamps_def only_object_changed_def cache_DecrementInt_def
    memoryStorage_Get_def memoryStorage_Set_def
  by (auto simp: Let_def split: option.splits obj.splits)

lemma DecrementInt8_ok: "typed_variant_ok cache_DecrementInt8 VInt8 ''int8'' (-)"
  unfolding typed_variant_ok_def cache_DecrementInt8_def memoryStorage_Get_def memoryStorage_Set_def
  by (auto simp: Let_def split: option.splits obj.splits)

lemma DecrementInt8_frame: "typed_keeps_timestamps cache_DecrementInt8"
  unfolding typed_keeps_timestamps_def only_object_changed_def cache_DecrementInt8_def
    memoryStorage_Get_def memoryStorage_Set_def
  by (auto simp: Let_def split: option.splits obj.splits)

lemma DecrementInt16_ok: "typed_variant_ok cache_DecrementInt16 VInt16 ''int16'' (-)"
  unfolding typed_variant_ok_def cache_DecrementInt16_def memoryStorage_Get_def memoryStorage_Set_def
  by (auto simp: Let_def split: option.splits obj.splits)

lemma DecrementInt16_frame: "typed_keeps_timestamps cache_DecrementInt16"
  unfolding typed_keeps_timestamps_def only_object_changed_def cache_DecrementInt16_def
    memoryStorage_Get_def memoryStorage_Set_def
  by (auto simp: Let_def split: option.splits obj.splits)

lemma DecrementInt32_ok: "typed_variant_ok cache_DecrementInt32 VInt32 ''int32'' (-)"
  unfolding typed_variant_ok_def cache_DecrementInt32_def memoryStorage_Get_def memoryStorage_Set_def
  by (auto simp: Let_def split: option.splits obj.splits)

lemma DecrementInt32_frame: "typed_keeps_timestamps cache_DecrementInt32"
  unfolding typed_keeps_timestamps_def only_object_changed_def cache_DecrementInt32_def
    memoryStorage_Get_def memoryStorage_Set_def
  by (auto simp: Let_def split: option.splits obj.splits)

lemma DecrementInt64_ok: "typed_variant_ok cache_DecrementInt64 VInt64 ''int64'' (-)"
  unfolding typed_variant_ok_def cache_DecrementInt64_def memoryStorage_Get_def memoryStorage_Set_def
  by (auto simp: Let_def split: option.splits obj.splits)

lemma DecrementInt64_frame: "typed_keeps_timestamps cache_DecrementInt64"
  unfolding typed_keeps_timestamps_def only_object_changed_def cache_DecrementInt64_def
    memoryStorage_Get_def memoryStorage_Set_def
  by (auto simp: Let_def split: option.splits obj.splits)

lemma DecrementUint_ok: "typed_variant_ok cache_DecrementUint VUint ''uint'' (-)"
  unfolding typed_variant_ok_def cache_DecrementUint_def memoryStorage_Get_def memoryStorage_Set_def
  by (auto simp: Let_def split: option.splits obj.splits)

lemma DecrementUint_frame: "typed_keeps_timestamps cache_DecrementUint"
  unfolding typed_keeps_timestamps_def only_object_changed_def cache_DecrementUint_def
    memoryStorage_Get_def memoryStorage_Set_def
  by (auto simp: Let_def split: option.splits obj.splits)

lemma DecrementUintptr_ok: "typed_variant_ok cache_DecrementUintptr VUintptr ''uintptr'' (-)"
  unfolding typed_variant_ok_def cache_DecrementUintptr_def memoryStorage_Get_def memoryStorage_Set_def
  by (auto simp: Let_def split: option.splits obj.splits)

lemma DecrementUintptr_frame: "typed_keeps_timestamps cache_DecrementUintptr"
  unfolding typed_keeps_timestamps_def only_object_changed_def cache_DecrementUintptr_def
    memoryStorage_Get_def memoryStorage_Set_def
  by (auto simp: Let_def split: option.splits obj.splits)

lemma DecrementUint8_ok: "typed_variant_ok cache_DecrementUint8 VUint8 ''uint8'' (-)"
  unfolding typed_variant_ok_def cache_DecrementUint8_def memoryStorage_Get_def memoryStorage_Set_def
  by (auto simp: Let_def split: option.splits obj.splits)

lemma DecrementUint8_frame: "typed_keeps_timestamps cache_DecrementUint8"
  unfolding typed_keeps_timestamps_def only_object_changed_def cache_DecrementUint8_def
    memoryStorage_Get_def memoryStorage_Set_def
  by (auto simp: Let_def split: option.splits obj.splits)

lemma DecrementUint16_ok: "typed_variant_ok cache_DecrementUint16 VUint16 ''uint16'' (-)"
  unfolding typed_variant_ok_def cache_DecrementUint16_def memoryStorage_Get_def memoryStorage_Set_def
  by (auto simp: Let_def split: option.splits obj.splits)

lemma DecrementUint16_frame: "typed_keeps_timestamps cache_DecrementUint16"
  unfolding typed_keeps_timestamps_def only_object_changed_def cache_DecrementUint16_def
    memoryStorage_Get_def memoryStorage_Set_def
  by (auto simp: Let_def split: option.splits obj.splits)

lemma DecrementUint32_ok: "typed_variant_ok cache_DecrementUint32 VUint32 ''uint32'' (-)"
  unfolding typed_variant_ok_def cache_DecrementUint32_def memoryStorage_Get_def memoryStorage_Set_def
  by (auto simp: Let_def split: option.splits obj.splits)

lemma DecrementUint32_frame: "typed_keeps_timestamps cache_DecrementUint32"
  unfolding typed_keeps_timestamps_def only_object_changed_def cache_DecrementUint32_def
    memoryStorage_Get_def memoryStorage_Set_def
  by (auto simp: Let_def split: option.splits obj.splits)

lemma DecrementUint64_ok: "typed_variant_ok cache_DecrementUint64 VUint64 ''uint64'' (-)"
  unfolding typed_variant_ok_def cache_DecrementUint64_def memoryStorage_Get_def memoryStorage_Set_def
  by (auto simp: Let_def split: option.splits obj.splits)

lemma DecrementUint64_frame: "typed_keeps_timestamps cache_DecrementUint64"
  unfolding typed_keeps_timestamps_def only_object_changed_def cache_DecrementUint64_def
    memoryStorage_Get_def memoryStorage_Set_def
  by (auto simp: Let_def split: option.splits obj.splits)

lemma DecrementFloat32_ok: "typed_variant_ok (cache_DecrementFloat32 F) VFloat32 ''float32'' (sub32 F)"
  unfolding typed_variant_ok_def cache_DecrementFloat32_def memoryStorage_Get_def memoryStorage_Set_def
  by (auto simp: Let_def split: option.splits obj.splits)

lemma DecrementFloat32_frame: "typed_keeps_timestamps (cache_DecrementFloat32 F)"
  unfolding typed_keeps_timestamps_def only_object_changed_def cache_DecrementFloat32_def
    memoryStorage_Get_def memoryStorage_Set_def
  by (auto simp: Let_def split: option.splits obj.splits)

lemma DecrementFloat64_ok: "typed_variant_ok (cache_DecrementFloat64 F) VFloat64 ''float64'' (sub64 F)"
  unfolding typed_variant_ok_def cache_DecrementFloat64_def memoryStorage_Get_def memoryStorage_Set_def
  by (auto simp: Let_def split: option.splits obj.splits)

lemma DecrementFloat64_frame: "typed_keeps_timestamps (cache_DecrementFloat64 F)"
  unfolding typed_keeps_timestamps_def only_object_changed_def cache_DecrementFloat64_def
    memoryStorage_Get_def memoryStorage_Set_def
  by (auto simp: Let_def split: option.splits obj.splits)

lemma Increment_frame: "untyped_keeps_timestamps (cache_Increment F)"
  unfolding untyped_keeps_timestamps_def only_object_changed_def cache_Increment_def
    memoryStorage_Get_def memoryStorage_Set_def
  by (auto simp: Let_def split: option.splits obj.splits if_splits)

lemma Decrement_frame: "untyped_keeps_timestamps (cache_Decrement F)"
  unfolding untyped_keeps_timestamps_def only_object_changed_def cache_Decrement_def
    memoryStorage_Get_def memoryStorage_Set_def
  by (auto simp: Let_def split: option.splits obj.splits if_splits)

lemma IncrementFloat_frame: "untyped_keeps_timestamps (cache_IncrementFloat F)"
  unfolding untyped_keeps_timestamps_def only_object_changed_def cache_IncrementFloat_def
    memoryStorage_Get_def memoryStorage_Set_def
  by (auto simp: Let_def split: option.splits obj.splits if_splits)

lemma DecrementFloat_frame: "untyped_keeps_timestamps (cache_DecrementFloat F)"
  unfolding untyped_keeps_timestamps_def only_object_changed_def cache_DecrementFloat_def
    memoryStorage_Get_def memoryStorage_Set_def
  by (auto simp: Let_def split: option.splits obj.splits if_splits)

text \<open>
  Claim C6.  Each of the twenty-six typed variants answers not found for a key that is
  absent or expired, answers a type error when the stored value is not of exactly the
  variant's type (an \<open>int\<close> under the key makes \<open>IncrementInt8\<close> fail), and otherwise
  writes the new value back and returns it, computed in the variant's type.
\<close>

theorem typed_variants_behave:
  "typed_variant_ok cache_IncrementInt VInt ''int'' (+) \<and>
   typed_variant_ok cache_IncrementInt8 VInt8 ''int8'' (+) \<and>
   typed_variant_ok cache_IncrementInt16 VInt16 ''int16'' (+) \<and>
   typed_variant_ok cache_IncrementInt32 VInt32 ''int32'' (+) \<and>
   typed_variant_ok cache_IncrementInt64 VInt64 ''int64'' (+) \<and>
   typed_variant_ok cache_IncrementUint VUint ''uint'' (+) \<and>
   typed_variant_ok cache_IncrementUintptr VUintptr ''uintptr'' (+) \<and>
   typed_variant_ok cache_IncrementUint8 VUint8 ''uint8'' (+) \<and>
   typed_variant_ok cache_IncrementUint16 VUint16 ''uint16'' (+) \<and>
   typed_variant_ok cache_IncrementUint32 VUint32 ''uint32'' (+) \<and>
   typed_variant_ok cache_IncrementUint64 VUint64 ''uint64'' (+) \<and>
   typed_variant_ok (cache_IncrementFloat32 F) VFloat32 ''float32'' (add32 F) \<and>
   typed_variant_ok (cache_IncrementFloat64 F) VFloat64 ''float64'' (add64 F) \<and>
   typed_variant_ok cache_DecrementInt VInt ''int'' (-) \<and>
   typed_variant_ok cache_DecrementInt8 VInt8 ''int8'' (-) \<and>
   typed_variant_ok cache_DecrementInt16 VInt16 ''int16'' (-) \<and>
   typed_variant_ok cache_DecrementInt32 VInt32 ''int32'' (-) \<and>
   typed_variant_ok cache_DecrementInt64 VInt64 ''int64'' (-) \<and>
   typed_variant_ok cache_DecrementUint VUint ''uint'' (-) \<and>
   typed_variant_ok cache_DecrementUintptr VUintptr ''uintptr'' (-) \<and>
   typed_variant_ok cache_DecrementUint8 VUint8 ''uint8'' (-) \<and>
   typed_variant_ok cache_DecrementUint16 VUint16 ''uint16'' (-) \<and>
   typed_variant_ok cache_DecrementUint32 VUint32 ''uint32'' (-) \<and>
   typed_variant_ok cache_DecrementUint64 VUint64 ''uint64'' (-) \<and>
   typed_variant_ok (cache_DecrementFloat32 F) VFloat32 ''float32'' (sub32 F) \<and>
   typed_variant_ok (cache_DecrementFloat64 F) VFloat64 ''float64'' (sub64 F)"
  by (intro conjI)
     (rule
    IncrementInt_ok IncrementInt8_ok IncrementInt16_ok IncrementInt32_ok
     IncrementInt64_ok IncrementUint_ok IncrementUintptr_ok IncrementUint8_ok
     IncrementUint16_ok IncrementUint32_ok IncrementUint64_ok IncrementFloat32_ok
     IncrementFloat64_ok DecrementInt_ok DecrementInt8_ok DecrementInt16_ok
     DecrementInt32_ok DecrementInt64_ok DecrementUint_ok DecrementUintptr_ok
     DecrementUint8_ok DecrementUint16_ok DecrementUint32_ok DecrementUint64_ok
     DecrementFloat32_ok DecrementFloat64_ok)+

theorem typed_variants_behave_witness:
  "cache_IncrementInt8 ''n'' 1 6
     (cache_Set ''n'' (VInt 5) 0 (- 1) 5 (newCache 0 MemoryStorage 0 :: (int, int) cache))
     = (Inl (NotA ''n'' ''int8''),
        cache_Set ''n'' (VInt 5) 0 (- 1) 5 (newCache 0 MemoryStorage 0)) \<and>
   cache_IncrementInt8 ''n'' 1 6 (newCache 0 MemoryStorage 0 :: (int, int) cache)
     = (Inl (ItemNotFound ''n''), newCache 0 MemoryStorage 0) \<and>
   fst (cache_IncrementInt8 ''n'' 1 6
     (cache_Set ''n'' (VInt8 127) 0 (- 1) 5 (newCache 0 MemoryStorage 0 :: (int, int) cache)))
     = Inr (- 128)"
proof -
  let ?c0 = "newCache 0 MemoryStorage 0 :: (int, int) cache"
  let ?c1 = "cache_Set ''n'' (VInt 5) 0 (- 1) 5 ?c0"
  let ?c2 = "cache_Set ''n'' (VInt8 127) 0 (- 1) 5 ?c0"
  have t: "typed_variant_ok
             (cache_IncrementInt8 :: key \<Rightarrow> 8 word \<Rightarrow> int64 \<Rightarrow> (int, int) cache \<Rightarrow> _)
             VInt8 ''int8'' (+)"
    using typed_variants_behave [where ?'a = int and ?'b = int] by blast
  have i0: "items (storage ?c0) ''n'' = None"
    by (simp add: newCache_def MemoryStorage_def)
  have i1: "items (storage ?c1) ''n''
              = Some \<lparr>Object = VInt 5, Expiration = 0, RefreshDeadline = 0\<rparr>"
    by (simp add: cache_Set_def memoryStorage_Set_def newCache_def MemoryStorage_def
          DefaultExpiration_def Let_def word_sless_alt)
  have i2: "items (storage ?c2) ''n''
              = Some \<lparr>Object = VInt8 127, Expiration = 0, RefreshDeadline = 0\<rparr>"
    by (simp add: cache_Set_def memoryStorage_Set_def newCache_def MemoryStorage_def
          DefaultExpiration_def Let_def word_sless_alt)
  have a: "cache_IncrementInt8 ''n'' 1 6 ?c1 = (Inl (NotA ''n'' ''int8''), ?c1)"
    using t [unfolded typed_variant_ok_def, rule_format, of "''n''" 1 6 ?c1] i1
    by (simp add: Item_Expired_def)
  have b: "cache_IncrementInt8 ''n'' 1 6 ?c0 = (Inl (ItemNotFound ''n''), ?c0)"
    using t [unfolded typed_variant_ok_def, rule_format, of "''n''" 1 6 ?c0] i0
    by simp
  have c: "fst (cache_IncrementInt8 ''n'' 1 6 ?c2) = Inr (- 128)"
    using t [unfolded typed_variant_ok_def, rule_format, of "''n''" 1 6 ?c2] i2
    by (simp add: Item_Expired_def)
  from a b c show ?thesis by simp
qed

text \<open>
  Claim C10.  A successful \<open>Increment\<close>, \<open>Decrement\<close>, \<open>IncrementFloat\<close>,
  \<open>DecrementFloat\<close> or typed variant writes back an entry with the expiration and the
  refresh deadline of the entry it read; only the value under the key changes.
\<close>

theorem arithmetic_keeps_timestamps:
  "untyped_keeps_timestamps (cache_Increment F) \<and>
   untyped_keeps_timestamps (cache_Decrement F) \<and>
   untyped_keeps_timestamps (cache_IncrementFloat F) \<and>
   untyped_keeps_timestamps (cache_DecrementFloat F) \<and>
   typed_keeps_timestamps cache_IncrementInt \<and>
   typed_keeps_timestamps cache_IncrementInt8 \<and>
   typed_keeps_timestamps cache_IncrementInt16 \<and>
   typed_keeps_timestamps cache_IncrementInt32 \<and>
   typed_keeps_timestamps cache_IncrementInt64 \<and>
   typed_keeps_timestamps cache_IncrementUint \<and>
   typed_keeps_timestamps cache_IncrementUintptr \<and>
   typed_keeps_timestamps cache_IncrementUint8 \<and>
   typed_keeps_timestamps cache_IncrementUint16 \<and>
   typed_keeps_timestamps cache_IncrementUint32 \<and>
   typed_keeps_timestamps cache_IncrementUint64 \<and>
   typed_keeps_timestamps (cache_IncrementFloat32 F) \<and>
   typed_keeps_timestamps (cache_IncrementFloat64 F) \<and>
   typed_keeps_timestamps cache_DecrementInt \<and>
   typed_keeps_timestamps cache_DecrementInt8 \<and>
   typed_keeps_timestamps cache_DecrementInt16 \<and>
   typed_keeps_timestamps cache_DecrementInt32 \<and>
   typed_keeps_timestamps cache_DecrementInt64 \<and>
   typed_keeps_timestamps cache_DecrementUint \<and>
   typed_keeps_timestamps cache_DecrementUintptr \<and>
   typed_keeps_timestamps cache_DecrementUint8 \<and>
   typed_keeps_timestamps cache_DecrementUint16 \<and>
   typed_keeps_timestamps cache_DecrementUint32 \<and>
   typed_keeps_timestamps cache_DecrementUint64 \<and>
   typed_keeps_timestamps (cache_DecrementFloat32 F) \<and>
   typed_keeps_timestamps (cache_DecrementFloat64 F)"
  by (intro conjI)
     (rule
    Increment_frame Decrement_frame IncrementFloat_frame DecrementFloat_frame
     IncrementInt_frame IncrementInt8_frame IncrementInt16_frame IncrementInt32_frame
     IncrementInt64_frame IncrementUint_frame IncrementUintptr_frame
     IncrementUint8_frame IncrementUint16_frame IncrementUint32_frame
     IncrementUint64_frame IncrementFloat32_frame IncrementFloat64_frame
     DecrementInt_frame DecrementInt8_frame DecrementInt16_frame DecrementInt32_frame
     DecrementInt64_frame DecrementUint_frame DecrementUintptr_frame
     DecrementUint8_frame DecrementUint16_frame DecrementUint32_frame
     DecrementUint64_frame DecrementFloat32_frame DecrementFloat64_frame)+

theorem arithmetic_keeps_timestamps_witness:
  "fst (cache_Increment example_float_ops ''n'' 1 6
          (cache_Set ''n'' (VInt8 127) 50 70 5 (newCache 0 MemoryStorage 0))) = None \<and>
   only_object_changed ''n''
     (cache_Set ''n'' (VInt8 127) 50 70 5 (newCache 0 MemoryStorage 0))
     (snd (cache_Increment example_float_ops ''n'' 1 6
          (cache_Set ''n'' (VInt8 127) 50 70 5 (newCache 0 MemoryStorage 0)))) \<and>
   \<not> isl (fst (cache_DecrementUint8 ''n'' 1 6
          (cache_Set ''n'' (VUint8 0) 50 70 5 (newCache 0 MemoryStorage 0 :: (int, int) cache)))) \<and>
   only_object_changed ''n''
     (cache_Set ''n'' (VUint8 0) 50 70 5 (newCache 0 MemoryStorage 0 :: (int, int) cache))
     (snd (cache_DecrementUint8 ''n'' 1 6
          (cache_Set ''n'' (VUint8 0) 50 70 5 (newCache 0 MemoryStorage 0))))"
proof -
  let ?c0 = "newCache 0 MemoryStorage 0 :: (int, int) cache"
  let ?c1 = "cache_Set ''n'' (VInt8 127) 50 70 5 ?c0"
  let ?c2 = "cache_Set ''n'' (VUint8 0) 50 70 5 ?c0"
  have h1: "fst (cache_Increment example_float_ops ''n'' 1 6 ?c1) = None"
    by (simp add: cache_Increment_def cache_Set_def memoryStorage_Get_def memoryStorage_Set_def
          newCache_def MemoryStorage_def DefaultExpiration_def Item_Expired_def Let_def
          word_sless_alt)
  have h2: "\<not> isl (fst (cache_DecrementUint8 ''n'' 1 6 ?c2))"
    by (simp add: cache_DecrementUint8_def cache_Set_def memoryStorage_Get_def
          memoryStorage_Set_def newCache_def MemoryStorage_def DefaultExpiration_def
          Item_Expired_def Let_def word_sless_alt)
  have t1: "untyped_keeps_timestamps (cache_Increment example_float_ops)"
    and t2: "typed_keeps_timestamps
               (cache_DecrementUint8 :: key \<Rightarrow> 8 word \<Rightarrow> int64 \<Rightarrow> (int, int) cache \<Rightarrow> _)"
    using arithmetic_keeps_timestamps [of example_float_ops] by blast+
  from h1 t1 [unfolded untyped_keeps_timestamps_def, rule_format, of "''n''" 1 6 ?c1]
  have a: "only_object_changed ''n'' ?c1 (snd (cache_Increment example_float_ops ''n'' 1 6 ?c1))"
    by simp
  from h2 t2 [unfolded typed_keeps_timestamps_def, rule_format, of "''n''" 1 6 ?c2]
  have b: "only_object_changed ''n'' ?c2 (snd (cache_DecrementUint8 ''n'' 1 6 ?c2))"
    by simp
  from h1 a h2 b show ?thesis by simp
qed

section \<open>Expiry as the lookups and the sweep test it\<close>

text \<open>
  \<open>Get\<close>, \<open>get\<close> and \<open>DeleteExpired\<close> test \<open>Expiration > 0\<close> where
  \<open>Item.Expired\<close> tests \<open>Expiration != 0\<close>.  On entries whose expiration is not
  negative the two tests agree, and there the lookup and the sweep follow
  \<open>Item.Expired\<close>.
\<close>

lemma not_Expired_iff_on_nonnegative:
  assumes "0 \<le>s Expiration it"
  shows "(0 <s Expiration it \<and> Expiration it <s now) = Item_Expired it now"
proof (cases "Expiration it = 0")
  case True
  then show ?thesis by (simp add: Item_Expired_def word_sless_alt)
next
  case False
  then have "sint (Expiration it) \<noteq> 0" by (simp add: signed_eq_0_iff)
  then have "0 < sint (Expiration it)" using assms by (simp add: word_sle_eq)
  then show ?thesis using False by (simp add: Item_Expired_def word_sless_alt)
qed

lemma Get_agrees_with_Expired_on_nonnegative:
  assumes "\<forall>it. items (storage c) k = Some it \<longrightarrow> 0 \<le>s Expiration it"
  shows "fst (cache_Get k now c) =
           (case items (storage c) k of
              None \<Rightarrow> (Nil, False)
            | Some it \<Rightarrow> if Item_Expired it now then (Nil, False) else (Object it, True))"
proof (cases "items (storage c) k")
  case None
  then show ?thesis by (simp add: cache_Get_absent)
next
  case (Some it)
  then have n: "0 \<le>s Expiration it" using assms by simp
  show ?thesis
  proof (cases "Item_Expired it now")
    case True
    then have "0 <s Expiration it" "Expiration it <s now"
      using not_Expired_iff_on_nonnegative [OF n, of now] by simp_all
    then show ?thesis using Some True by (simp add: cache_Get_past)
  next
    case False
    then have "\<not> (0 <s Expiration it \<and> Expiration it <s now)"
      using not_Expired_iff_on_nonnegative [OF n, of now] by simp
    then show ?thesis using Some False by (simp add: cache_Get_found)
  qed
qed

lemma DeleteExpired_range_items:
  "items (DeleteExpired_range now ks s) k =
     (case items s k of
        None \<Rightarrow> None
      | Some v \<Rightarrow>
          if k \<in> set ks \<and> 0 <s Expiration v \<and> Expiration v <s now then None else Some v)"
proof (induction ks arbitrary: s)
  case Nil
  then show ?case by (simp split: option.splits)
next
  case (Cons a ks)
  show ?case
    by (auto simp: Cons.IH memoryStorage_Del_def split: option.splits)
qed

lemma DeleteExpired_on_nonnegative:
  assumes "set ks = dom (items s)"
    and "\<forall>k v. items s k = Some v \<longrightarrow> 0 \<le>s Expiration v"
  shows "items (memoryStorage_DeleteExpired now ks s) k =
           (case items s k of
              None \<Rightarrow> None
            | Some v \<Rightarrow> if Item_Expired v now then None else Some v)"
proof (cases "items s k")
  case None
  then show ?thesis
    by (simp add: memoryStorage_DeleteExpired_def DeleteExpired_range_items)
next
  case (Some v)
  then have "k \<in> set ks" using assms(1) by auto
  moreover have "(0 <s Expiration v \<and> Expiration v <s now) = Item_Expired v now"
    using assms(2) Some by (intro not_Expired_iff_on_nonnegative) simp
  ultimately show ?thesis
    using Some by (simp add: memoryStorage_DeleteExpired_def DeleteExpired_range_items)
qed

text \<open>
  Claim C5.  Two caches hold an entry for which \<open>Item.Expired\<close> is true (its
  expiration is not 0 and the clock is past it) and for which \<open>Get\<close> nevertheless
  returns the value and true, because its inlined test asks for a positive expiration.
  In the first, \<open>Set\<close> with the largest duration, \<open>time.Duration(math.MaxInt64)\<close>, at
  the clock reading 1700000000000000000 has computed an expiration that wraps to a
  negative timestamp; \<open>Increment\<close>, which calls \<open>Item.Expired\<close>, answers not found
  for that entry at the time at which \<open>Get\<close> finds it.  In the second, the storage was
  handed to the cache with an entry whose expiration is \<open>-1\<close>.
\<close>

theorem Get_finds_entry_that_Expired_rejects:
  "items (storage (cache_Set ''k'' (VInt 1) 9223372036854775807 NoRefreshDeadline
            1700000000000000000 (newCache 0 MemoryStorage 0 :: (int, int) cache))) ''k''
     = Some \<lparr>Object = VInt 1, Expiration = - 7523372036854775809, RefreshDeadline = 0\<rparr> \<and>
   Item_Expired
     (\<lparr>Object = VInt 1, Expiration = - 7523372036854775809, RefreshDeadline = 0\<rparr>
        :: (int, int) Item) 1700000000000000001 \<and>
   fst (cache_Get ''k'' 1700000000000000001
          (cache_Set ''k'' (VInt 1) 9223372036854775807 NoRefreshDeadline
            1700000000000000000 (newCache 0 MemoryStorage 0 :: (int, int) cache)))
     = (VInt 1, True) \<and>
   fst (cache_Increment example_float_ops ''k'' 1 1700000000000000001
          (cache_Set ''k'' (VInt 1) 9223372036854775807 NoRefreshDeadline
            1700000000000000000 (newCache 0 MemoryStorage 0)))
     = Some (ItemNotFound ''k'') \<and>
   Item_Expired
     (\<lparr>Object = VInt 1, Expiration = - 1, RefreshDeadline = 0\<rparr> :: (int, int) Item) 5 \<and>
   fst (cache_Get ''k'' 5
          (newCache 0
             (memoryStorage_Set ''k''
                (\<lparr>Object = VInt 1, Expiration = - 1, RefreshDeadline = 0\<rparr> :: (int, int) Item)
                MemoryStorage) 0))
     = (VInt 1, True)"
  by (simp add: cache_Set_def cache_Get_def cache_Increment_def memoryStorage_Set_def
        memoryStorage_Get_def newCache_def MemoryStorage_def DefaultExpiration_def
        NoRefreshDeadline_def Item_Expired_def Let_def word_sless_alt)

text \<open>
  Claim C7.  The same two entries, whose expiration is not 0 and lies before the clock
  reading, survive a sweep: \<open>DeleteExpired\<close> tests for a positive expiration and leaves
  the storage as it was.
\<close>

theorem DeleteExpired_keeps_entry_that_Expired_rejects:
  "items (storage (cache_Set ''k'' (VInt 1) 9223372036854775807 NoRefreshDeadline
            1700000000000000000 (newCache 0 MemoryStorage 0 :: (int, int) cache))) ''k''
     = Some \<lparr>Object = VInt 1, Expiration = - 7523372036854775809, RefreshDeadline = 0\<rparr> \<and>
   (- 7523372036854775809 :: int64) \<noteq> 0 \<and>
   (- 7523372036854775809 :: int64) <s 1700000000000000001 \<and>
   memoryStorage_DeleteExpired 1700000000000000001 [''k'']
     (storage (cache_Set ''k'' (VInt 1) 9223372036854775807 NoRefreshDeadline
            1700000000000000000 (newCache 0 MemoryStorage 0 :: (int, int) cache)))
     = storage (cache_Set ''k'' (VInt 1) 9223372036854775807 NoRefreshDeadline
            1700000000000000000 (newCache 0 MemoryStorage 0)) \<and>
   (- 1 :: int64) \<noteq> 0 \<and> (- 1 :: int64) <s 5 \<and>
   memoryStorage_DeleteExpired 5 [''k'']
     (memoryStorage_Set ''k''
        (\<lparr>Object = VInt 1, Expiration = - 1, RefreshDeadline = 0\<rparr> :: (int, int) Item)
        MemoryStorage)
     = memoryStorage_Set ''k''
        \<lparr>Object = VInt 1, Expiration = - 1, RefreshDeadline = 0\<rparr> MemoryStorage"
  by (simp add: cache_Set_def memoryStorage_DeleteExpired_def memoryStorage_Set_def
        memoryStorage_Del_def newCache_def MemoryStorage_def DefaultExpiration_def
        NoRefreshDeadline_def Let_def word_sless_alt)

section \<open>Add and Replace\<close>

text \<open>
  \<open>Add\<close> and \<open>Replace\<close> look the key up with \<open>get\<close>.  On a key whose entry has no
  negative expiration they follow \<open>Item.Expired\<close>: \<open>Add\<close> stores as \<open>Set\<close> does when
  the key is absent or expired and fails otherwise, \<open>Replace\<close> fails and leaves the cache
  as it was when the key is absent or expired and stores otherwise.
\<close>

lemma cache_get_miss_unchanged:
  "\<not> snd (fst (cache_get k now c)) \<Longrightarrow> snd (cache_get k now c) = c"
  by (auto simp: cache_get_def memoryStorage_Get_def Let_def split: option.splits if_splits)

lemma cache_get_on_nonnegative:
  assumes "\<forall>it. items (storage c) k = Some it \<longrightarrow> 0 \<le>s Expiration it"
  shows "fst (cache_get k now c) =
           (case items (storage c) k of
              None \<Rightarrow> (Nil, False)
            | Some it \<Rightarrow> if Item_Expired it now then (Nil, False) else (Object it, True))"
proof (cases "items (storage c) k")
  case None
  then show ?thesis by (simp add: cache_get_absent)
next
  case (Some it)
  then have n: "0 \<le>s Expiration it" using assms by simp
  show ?thesis
  proof (cases "Item_Expired it now")
    case True
    then have "0 <s Expiration it" "Expiration it <s now"
      using not_Expired_iff_on_nonnegative [OF n, of now] by simp_all
    then show ?thesis using Some True by (simp add: cache_get_past)
  next
    case False
    then have "\<not> (0 <s Expiration it \<and> Expiration it <s now)"
      using not_Expired_iff_on_nonnegative [OF n, of now] by simp
    then show ?thesis using Some False by (simp add: cache_get_found)
  qed
qed

lemma Add_on_nonnegative:
  assumes "\<forall>it. items (storage c) k = Some it \<longrightarrow> 0 \<le>s Expiration it"
  shows "cache_Add k x d rd now c =
           (case items (storage c) k of
              None \<Rightarrow> (None, cache_Set k x d rd now c)
            | Some it \<Rightarrow>
                if Item_Expired it now then (None, cache_Set k x d rd now c)
                else (Some (ItemAlreadyExists k), snd (cache_get k now c)))"
proof -
  obtain r c1 where g: "cache_get k now c = (r, c1)" by (cases "cache_get k now c")
  have f: "r = (case items (storage c) k of
              None \<Rightarrow> (Nil, False)
            | Some it \<Rightarrow> if Item_Expired it now then (Nil, False) else (Object it, True))"
    using cache_get_on_nonnegative [OF assms, of now] g by simp
  have u: "\<not> snd r \<Longrightarrow> c1 = c"
    using cache_get_miss_unchanged [of k now c] g by simp
  show ?thesis
    using f u g by (auto simp: cache_Add_def cache_set_eq_Set split: option.splits)
qed

lemma Replace_on_nonnegative:
  assumes "\<forall>it. items (storage c) k = Some it \<longrightarrow> 0 \<le>s Expiration it"
  shows "cache_Replace k x d rd now c =
           (case items (storage c) k of
              None \<Rightarrow> (Some (ItemDoesntExist k), c)
            | Some it \<Rightarrow>
                if Item_Expired it now then (Some (ItemDoesntExist k), c)
                else (None, cache_Set k x d rd now (snd (cache_get k now c))))"
proof -
  obtain r c1 where g: "cache_get k now c = (r, c1)" by (cases "cache_get k now c")
  have f: "r = (case items (storage c) k of
              None \<Rightarrow> (Nil, False)
            | Some it \<Rightarrow> if Item_Expired it now then (Nil, False) else (Object it, True))"
    using cache_get_on_nonnegative [OF assms, of now] g by simp
  have u: "\<not> snd r \<Longrightarrow> c1 = c"
    using cache_get_miss_unchanged [of k now c] g by simp
  show ?thesis
    using f u g by (auto simp: cache_Replace_def cache_set_eq_Set split: option.splits)
qed

lemma Set_after_get_storage:
  "storage (cache_Set k x d rd now (snd (cache_get k later c)))
     = storage (cache_Set k x d rd now c)"
  by (simp add: cache_Set_def Let_def cache_get_storage cache_get_defaultExpiration)

text \<open>
  Claim C2.  The two caches of claim C5 hold under \<open>k\<close> an entry of which
  \<open>Item.Expired\<close> is true, so no unexpired entry of \<open>k\<close> is present.  \<open>Add\<close> on \<open>k\<close>
  nevertheless fails with "already exists" and leaves the cache as it was: its lookup
  \<open>get\<close> asks for a positive expiration before it compares with the clock.
\<close>

theorem Add_fails_on_entry_that_Expired_rejects:
  "items (storage (cache_Set ''k'' (VInt 1) 9223372036854775807 NoRefreshDeadline
            1700000000000000000 (newCache 0 MemoryStorage 0 :: (int, int) cache))) ''k''
     = Some \<lparr>Object = VInt 1, Expiration = - 7523372036854775809, RefreshDeadline = 0\<rparr> \<and>
   Item_Expired
     (\<lparr>Object = VInt 1, Expiration = - 7523372036854775809, RefreshDeadline = 0\<rparr>
        :: (int, int) Item) 1700000000000000001 \<and>
   cache_Add ''k'' (VInt 2) NoExpiration NoRefreshDeadline 1700000000000000001
     (cache_Set ''k'' (VInt 1) 9223372036854775807 NoRefreshDeadline
        1700000000000000000 (newCache 0 MemoryStorage 0 :: (int, int) cache))
     = (Some (ItemAlreadyExists ''k''),
        cache_Set ''k'' (VInt 1) 9223372036854775807 NoRefreshDeadline
          1700000000000000000 (newCache 0 MemoryStorage 0)) \<and>
   Item_Expired
     (\<lparr>Object = VInt 1, Expiration = - 1, RefreshDeadline = 0\<rparr> :: (int, int) Item) 5 \<and>
   cache_Add ''k'' (VInt 2) NoExpiration NoRefreshDeadline 5
     (newCache 0
        (memoryStorage_Set ''k''
           (\<lparr>Object = VInt 1, Expiration = - 1, RefreshDeadline = 0\<rparr> :: (int, int) Item)
           MemoryStorage) 0)
     = (Some (ItemAlreadyExists ''k''),
        newCache 0
          (memoryStorage_Set ''k''
             \<lparr>Object = VInt 1, Expiration = - 1, RefreshDeadline = 0\<rparr> MemoryStorage) 0)"
  by (simp add: cache_Add_def cache_get_def cache_set_def cache_Set_def memoryStorage_Set_def
        memoryStorage_Get_def newCache_def MemoryStorage_def DefaultExpiration_def
        NoExpiration_def NoRefreshDeadline_def Item_Expired_def
        Item_RefreshDeadlineReached_def Let_def word_sless_alt)

text \<open>
  Claim C3.  On the same two caches, where no unexpired entry of \<open>k\<close> is present,
  \<open>Replace\<close> on \<open>k\<close> returns no error and overwrites the entry, where the claim has it
  fail with "doesn't exist" and leave the cache unchanged.
\<close>

theorem Replace_succeeds_on_entry_that_Expired_rejects:
  "items (storage (cache_Set ''k'' (VInt 1) 9223372036854775807 NoRefreshDeadline
            1700000000000000000 (newCache 0 MemoryStorage 0 :: (int, int) cache))) ''k''
     = Some \<lparr>Object = VInt 1, Expiration = - 7523372036854775809, RefreshDeadline = 0\<rparr> \<and>
   Item_Expired
     (\<lparr>Object = VInt 1, Expiration = - 7523372036854775809, RefreshDeadline = 0\<rparr>
        :: (int, int) Item) 1700000000000000001 \<and>
   fst (cache_Replace ''k'' (VInt 2) NoExpiration NoRefreshDeadline 1700000000000000001
     (cache_Set ''k'' (VInt 1) 9223372036854775807 NoRefreshDeadline
        1700000000000000000 (newCache 0 MemoryStorage 0 :: (int, int) cache))) = None \<and>
   items (storage (snd
     (cache_Replace ''k'' (VInt 2) NoExpiration NoRefreshDeadline 1700000000000000001
       (cache_Set ''k'' (VInt 1) 9223372036854775807 NoRefreshDeadline
          1700000000000000000 (newCache 0 MemoryStorage 0 :: (int, int) cache))))) ''k''
     = Some \<lparr>Object = VInt 2, Expiration = 0, RefreshDeadline = 0\<rparr> \<and>
   Item_Expired
     (\<lparr>Object = VInt 1, Expiration = - 1, RefreshDeadline = 0\<rparr> :: (int, int) Item) 5 \<and>
   fst (cache_Replace ''k'' (VInt 2) NoExpiration NoRefreshDeadline 5
     (newCache 0
        (memoryStorage_Set ''k''
           (\<lparr>Object = VInt 1, Expiration = - 1, RefreshDeadline = 0\<rparr> :: (int, int) Item)
           MemoryStorage) 0)) = None \<and>
   items (storage (snd
     (cache_Replace ''k'' (VInt 2) NoExpiration NoRefreshDeadline 5
       (newCache 0
          (memoryStorage_Set ''k''
             (\<lparr>Object = VInt 1, Expiration = - 1, RefreshDeadline = 0\<rparr> :: (int, int) Item)
             MemoryStorage) 0)))) ''k''
     = Some \<lparr>Object = VInt 2, Expiration = 0, RefreshDeadline = 0\<rparr>"
  by (simp add: cache_Replace_def cache_get_def cache_set_def cache_Set_def
        memoryStorage_Set_def memoryStorage_Get_def newCache_def MemoryStorage_def
        DefaultExpiration_def NoExpiration_def NoRefreshDeadline_def Item_Expired_def
        Item_RefreshDeadlineReached_def Let_def word_sless_alt)

section \<open>The refresh dispatch\<close>

text \<open>
  Claim C8.  An entry is stored at clock reading 100 with a refresh deadline 10 ns later.
  At reading 200 \<open>Add\<close> on that key fails with "already exists"; its lookup \<open>get\<close> has
  started a sender for the key, and the key is no longer in \<open>refreshConcurrencyMap\<close>,
  although the channel is still empty and no worker has taken a step, so no callback has
  run.  A second \<open>Add\<close> therefore starts a second sender for the same key.  \<open>Get\<close> on
  the same cache keeps the key in the map, and a second \<open>Get\<close> starts no second sender.
\<close>

theorem get_drops_key_from_refreshConcurrencyMap_at_once:
  "cache_Add ''k'' (VInt 2) NoExpiration NoRefreshDeadline 200
     (cache_Set ''k'' (VInt 1) NoExpiration 10 100 (newCache 0 MemoryStorage 1 :: (int, int) cache))
     = (Some (ItemAlreadyExists ''k''),
        (cache_Set ''k'' (VInt 1) NoExpiration 10 100 (newCache 0 MemoryStorage 1))
          \<lparr>senders := [''k'']\<rparr>) \<and>
   refreshConcurrencyMap
     (snd (cache_Add ''k'' (VInt 2) NoExpiration NoRefreshDeadline 200
       (cache_Set ''k'' (VInt 1) NoExpiration 10 100
          (newCache 0 MemoryStorage 1 :: (int, int) cache)))) ''k'' = None \<and>
   refreshKeys
     (snd (cache_Add ''k'' (VInt 2) NoExpiration NoRefreshDeadline 200
       (cache_Set ''k'' (VInt 1) NoExpiration 10 100
          (newCache 0 MemoryStorage 1 :: (int, int) cache)))) = [] \<and>
   senders
     (snd (cache_Add ''k'' (VInt 2) NoExpiration NoRefreshDeadline 200
       (snd (cache_Add ''k'' (VInt 2) NoExpiration NoRefreshDeadline 200
         (cache_Set ''k'' (VInt 1) NoExpiration 10 100
            (newCache 0 MemoryStorage 1 :: (int, int) cache)))))) = [''k'', ''k''] \<and>
   refreshConcurrencyMap
     (snd (cache_Get ''k'' 200
       (cache_Set ''k'' (VInt 1) NoExpiration 10 100
          (newCache 0 MemoryStorage 1 :: (int, int) cache)))) ''k'' = Some True \<and>
   senders
     (snd (cache_Get ''k'' 200
       (snd (cache_Get ''k'' 200
         (cache_Set ''k'' (VInt 1) NoExpiration 10 100
            (newCache 0 MemoryStorage 1 :: (int, int) cache)))))) = [''k'']"
  by (simp add: cache_Add_def cache_get_def cache_Get_def cache_Set_def cache_set_def
        memoryStorage_Set_def memoryStorage_Get_def newCache_def MemoryStorage_def
        DefaultExpiration_def NoExpiration_def NoRefreshDeadline_def
        Item_RefreshDeadlineReached_def Let_def word_sless_alt)

end
